theory Spec2Isabelle
  imports Complex_Main "HOL-Library.AList" "HOL-Library.Product_Lexorder"
begin

section \<open>Data model\<close>

text \<open>
  The Python sources compute with floats; lengths, volumes, masses and scores are
  modelled as exact rationals. Dictionaries keep their insertion order in Python and the
  services iterate over them, so a dictionary is an association list whose keys are
  looked up with \<open>map_of\<close> and overwritten in place with \<open>AList.update\<close>.
\<close>

type_synonym vec3 = "rat \<times> rat \<times> rat"

type_synonym 'v dict = "(string \<times> 'v) list"

datatype py_error = KeyError | IndexError

text \<open>
  \<open>Item.currentLocation\<close> is an optional dictionary that the services read and write
  under the keys \<open>containerId\<close>, \<open>position\<close> and \<open>rotation\<close>; each key may be absent.
\<close>

record location =
  loc_containerId :: "string option"
  loc_position :: "vec3 option"
  loc_rotation :: "vec3 option"

record item =
  itemId :: string
  name :: string
  width :: rat
  depth :: rat
  height :: rat
  mass :: rat
  priority :: int
  expiryDate :: string
  usageLimit :: int
  preferredZone :: string
  isWaste :: bool
  currentLocation :: "location option"

record container =
  containerId :: string
  zone :: string
  cont_width :: rat
  cont_depth :: rat
  cont_height :: rat
  occupiedSpace :: rat
  cont_items :: "string list"

record RearrangementStep =
  step :: int
  action :: string
  step_itemId :: string
  fromContainer :: "string option"
  toContainer :: "string option"
  step_position :: "vec3 option"

text \<open>
  The class \<open>Space3D\<close> (module \<open>utils.space3d\<close>) is not part of the sources at hand. The
  services only call its constructor and three methods, so the model takes them as a
  parameter: a record of operations over an arbitrary state type.
\<close>

record 'sp space3d =
  new_space :: "rat \<Rightarrow> rat \<Rightarrow> rat \<Rightarrow> 'sp"
  place_item :: "'sp \<Rightarrow> vec3 \<Rightarrow> vec3 \<Rightarrow> 'sp"
  find_position :: "'sp \<Rightarrow> vec3 \<Rightarrow> vec3 option"
  sp_retrieval_complexity :: "'sp \<Rightarrow> vec3 \<Rightarrow> vec3 \<Rightarrow> int"

subsection \<open>models/item.py and models/container.py\<close>

definition get_volume :: "item \<Rightarrow> rat" where
  "get_volume it = width it * depth it * height it"

definition get_all_rotations :: "item \<Rightarrow> vec3 list" where
  "get_all_rotations it =
     [(width it, depth it, height it),
      (width it, height it, depth it),
      (depth it, width it, height it),
      (depth it, height it, width it),
      (height it, width it, depth it),
      (height it, depth it, width it)]"

definition get_available_space :: "container \<Rightarrow> rat" where
  "get_available_space c = cont_width c * cont_depth c * cont_height c - occupiedSpace c"

definition is_full :: "container \<Rightarrow> bool" where
  "is_full c \<longleftrightarrow> occupiedSpace c \<ge> (95 / 100) * (cont_width c * cont_depth c * cont_height c)"

definition add_item :: "container \<Rightarrow> string \<Rightarrow> rat \<Rightarrow> bool \<times> container" where
  "add_item c item_id volume =
     (if volume > get_available_space c then (False, c)
      else (True, c\<lparr>cont_items := (if item_id \<in> set (cont_items c) then cont_items c
                                      else cont_items c @ [item_id]),
                     occupiedSpace := occupiedSpace c + volume\<rparr>))"

definition remove_item :: "container \<Rightarrow> string \<Rightarrow> rat \<Rightarrow> container" where
  "remove_item c item_id volume =
     c\<lparr>cont_items := remove1 item_id (cont_items c),
       occupiedSpace := max 0 (occupiedSpace c - volume)\<rparr>"

text \<open>
  The test \<open>item.currentLocation and "containerId" in item.currentLocation\<close>, and the
  reads \<open>currentLocation.get("position", (0, 0, 0))\<close> and
  \<open>currentLocation.get("rotation", (width, depth, height))\<close>.
\<close>

definition has_container :: "item \<Rightarrow> bool" where
  "has_container it =
     (case currentLocation it of None \<Rightarrow> False | Some l \<Rightarrow> loc_containerId l \<noteq> None)"

definition get_position :: "location \<Rightarrow> vec3" where
  "get_position l = (case loc_position l of None \<Rightarrow> (0, 0, 0) | Some p \<Rightarrow> p)"

definition get_rotation :: "item \<Rightarrow> location \<Rightarrow> vec3" where
  "get_rotation it l =
     (case loc_rotation l of None \<Rightarrow> (width it, depth it, height it) | Some r \<Rightarrow> r)"

section \<open>services/retrieval.py\<close>

record blocker =
  b_itemId :: string
  b_name :: string
  b_position :: vec3
  b_depth :: int

text \<open>The items placed in the space model: every other item located in the container.\<close>

definition container_items_of ::
  "item \<Rightarrow> container \<Rightarrow> item dict \<Rightarrow> (string \<times> item \<times> vec3 \<times> vec3) list" where
  "container_items_of target_item cont items =
     concat (map (\<lambda>(other_id, other_item).
        if other_id = itemId target_item then []
        else (case currentLocation other_item of
                None \<Rightarrow> []
              | Some l \<Rightarrow>
                  if loc_containerId l \<noteq> Some (containerId cont) then []
                  else [(other_id, other_item, get_position l, get_rotation other_item l)]))
        items)"

definition blocks :: "vec3 \<Rightarrow> vec3 \<Rightarrow> vec3 \<Rightarrow> vec3 \<Rightarrow> bool" where
  "blocks position rotation other_pos other_rot =
     (case (position, rotation, other_pos, other_rot) of
        ((x, y, z), (target_width, target_depth, target_height),
         (other_x, other_y, other_z), (other_width, other_depth, other_height)) \<Rightarrow>
        if other_y < y then False
        else
          let x_overlap =
                ((other_x < x + target_width \<and> x < other_x + other_width) \<or>
                 (x < other_x + other_width \<and> other_x < x + target_width));
              z_overlap =
                ((other_z < z + target_height \<and> z < other_z + other_height) \<or>
                 (z < other_z + other_height \<and> other_z < z + target_height))
          in x_overlap \<and> z_overlap)"

definition calculate_retrieval_complexity ::
  "'sp space3d \<Rightarrow> item \<Rightarrow> container \<Rightarrow> vec3 \<Rightarrow> vec3 \<Rightarrow> item dict \<Rightarrow> int \<times> blocker list" where
  "calculate_retrieval_complexity sp target_item cont position rotation items =
     (let container_items = container_items_of target_item cont items;
          space_model = fold (\<lambda>(other_id, other_item, other_pos, other_rot) m.
                                 place_item sp m other_pos other_rot)
                          container_items
                          (new_space sp (cont_width cont) (cont_depth cont) (cont_height cont));
          blocked_by = concat (map (\<lambda>(other_id, other_item, other_pos, other_rot).
                         if blocks position rotation other_pos other_rot
                         then [\<lparr>b_itemId = other_id, b_name = name other_item,
                                b_position = other_pos,
                                b_depth = sp_retrieval_complexity sp space_model other_pos other_rot\<rparr>]
                         else [])
                         container_items);
          blocked_by = sort_key b_depth blocked_by
      in (int (length blocked_by) + 1, blocked_by))"

text \<open>
  The cached free volume of the other containers: \<open>(id, container, available_space)\<close>,
  in dictionary order, for those with free volume.
\<close>

type_synonym avail = "(string \<times> container \<times> rat) list"

definition available_containers_of :: "container \<Rightarrow> container dict \<Rightarrow> avail" where
  "available_containers_of cont containers =
     concat (map (\<lambda>(cont_id, c).
        if containerId c \<noteq> containerId cont \<and> get_available_space c > 0
        then [(cont_id, c, get_available_space c)] else [])
        containers)"

fun choose_temp :: "string \<Rightarrow> rat \<Rightarrow> avail \<Rightarrow> string \<times> avail" where
  "choose_temp origin_zone item_volume [] = (''temporary_storage'', [])"
| "choose_temp origin_zone item_volume ((cont_id, c, avail_space) # rest) =
     (if avail_space \<ge> item_volume \<and> zone c = origin_zone
      then (cont_id, (cont_id, c, avail_space - item_volume) # rest)
      else (case choose_temp origin_zone item_volume rest of
              (best, rest') \<Rightarrow> (best, (cont_id, c, avail_space) # rest')))"

text \<open>
  The first loop of \<open>_generate_optimized_retrieval_steps\<close>: one move per blocker. The
  state is the step list, the step counter, the cached free volumes and the set
  \<open>moved_to_temp\<close>. \<open>items[blocking_id]\<close> raises \<open>KeyError\<close> on a missing key.
\<close>

fun move_blockers ::
  "item dict \<Rightarrow> container \<Rightarrow> blocker list \<Rightarrow> avail \<Rightarrow> RearrangementStep list \<Rightarrow> int \<Rightarrow>
   (string \<times> string) set \<Rightarrow>
   py_error + (RearrangementStep list \<times> int \<times> (string \<times> string) set)" where
  "move_blockers items cont [] av steps step_count moved = Inr (steps, step_count, moved)"
| "move_blockers items cont (b # bs) av steps step_count moved =
     (case map_of items (b_itemId b) of
        None \<Rightarrow> Inl KeyError
      | Some blocking_item \<Rightarrow>
          (case choose_temp (zone cont) (get_volume blocking_item) av of
             (best_temp_container, av') \<Rightarrow>
               move_blockers items cont bs av'
                 (steps @ [\<lparr>step = step_count, action = ''move'', step_itemId = b_itemId b,
                            fromContainer = Some (containerId cont),
                            toContainer = Some best_temp_container,
                            step_position = None\<rparr>])
                 (step_count + 1)
                 (insert (b_itemId b, best_temp_container) moved)))"

text \<open>The last loop: one move back per pair, in the order the pairs are handed in.\<close>

fun move_back ::
  "container \<Rightarrow> (string \<times> string) list \<Rightarrow> RearrangementStep list \<Rightarrow> int \<Rightarrow>
   RearrangementStep list" where
  "move_back cont [] steps step_count = steps"
| "move_back cont ((blocking_id, temp_container) # rest) steps step_count =
     move_back cont rest
       (steps @ [\<lparr>step = step_count, action = ''move'', step_itemId = blocking_id,
                  fromContainer = Some temp_container,
                  toContainer = Some (containerId cont),
                  step_position = None\<rparr>])
       (step_count + 1)"

text \<open>
  \<open>moved_to_temp\<close> is a Python \<open>set\<close>; \<open>list(moved_to_temp)\<close> enumerates it in the order of
  the hash table, which the sources do not fix. The enumeration is the parameter
  \<open>set_iter\<close>.
\<close>

definition generate_optimized_retrieval_steps ::
  "'sp space3d \<Rightarrow> ((string \<times> string) set \<Rightarrow> (string \<times> string) list) \<Rightarrow>
   item \<Rightarrow> container \<Rightarrow> vec3 \<Rightarrow> vec3 \<Rightarrow> item dict \<Rightarrow> container dict \<Rightarrow>
   py_error + RearrangementStep list" where
  "generate_optimized_retrieval_steps sp set_iter target_item cont position rotation items containers =
     (let blocked_by = snd (calculate_retrieval_complexity sp target_item cont position rotation items);
          available_containers = available_containers_of cont containers
      in case move_blockers items cont blocked_by available_containers [] 1 {} of
           Inl e \<Rightarrow> Inl e
         | Inr (steps, step_count, moved_to_temp) \<Rightarrow>
             Inr (move_back cont (rev (set_iter moved_to_temp))
                    (steps @ [\<lparr>step = step_count, action = ''retrieve'',
                               step_itemId = itemId target_item,
                               fromContainer = Some (containerId cont),
                               toContainer = None, step_position = None\<rparr>])
                    (step_count + 1)))"

text \<open>
  \<open>retrieve_item\<close> returns the success flag and the steps, and mutates the item and its
  container; the model returns the two stores as well.
\<close>

definition retrieve_item ::
  "'sp space3d \<Rightarrow> ((string \<times> string) set \<Rightarrow> (string \<times> string) list) \<Rightarrow>
   string \<Rightarrow> string \<Rightarrow> item dict \<Rightarrow> container dict \<Rightarrow>
   py_error + (bool \<times> RearrangementStep list \<times> item dict \<times> container dict)" where
  "retrieve_item sp set_iter item_id user_id items containers =
     (case map_of items item_id of
        None \<Rightarrow> Inr (False, [], items, containers)
      | Some it \<Rightarrow>
          (case currentLocation it of
             None \<Rightarrow> Inr (False, [], items, containers)
           | Some l \<Rightarrow>
               (case loc_containerId l of
                  None \<Rightarrow> Inr (False, [], items, containers)
                | Some container_id \<Rightarrow>
                    (case map_of containers container_id of
                       None \<Rightarrow> Inr (False, [], items, containers)
                     | Some cont \<Rightarrow>
                         (case generate_optimized_retrieval_steps sp set_iter it cont
                                 (get_position l) (get_rotation it l) items containers of
                            Inl e \<Rightarrow> Inl e
                          | Inr steps \<Rightarrow>
                              let it1 = (if usageLimit it > 0
                                         then (let it' = it\<lparr>usageLimit := usageLimit it - 1\<rparr>
                                               in if usageLimit it' = 0 then it'\<lparr>isWaste := True\<rparr>
                                                  else it')
                                         else it);
                                  cont' = remove_item cont item_id (get_volume it1);
                                  it2 = it1\<lparr>currentLocation := None\<rparr>
                              in Inr (True, steps,
                                      AList.update item_id it2 items,
                                      AList.update container_id cont' containers))))))"

section \<open>services/waste.py\<close>

text \<open>
  A \<open>datetime\<close> is a number of microseconds; \<open>(a - b).days\<close> is the floor of the
  difference in days. \<open>datetime.fromisoformat\<close> and the builtin \<open>int\<close> on strings are
  library functions: both are parameters, returning \<open>None\<close> where Python raises.
\<close>

type_synonym datetime = int

definition microseconds_per_day :: int where
  "microseconds_per_day = 86400000000"

definition days_between :: "datetime \<Rightarrow> datetime \<Rightarrow> int" where
  "days_between expiry_date current_date = (expiry_date - current_date) div microseconds_per_day"

definition timedelta_days :: "int \<Rightarrow> int" where
  "timedelta_days n = n * microseconds_per_day"

record WasteItem =
  wi_itemId :: string
  wi_name :: string
  reason :: string
  wi_containerId :: "string option"
  wi_position :: "vec3 option"
  wi_mass :: rat

record WasteReturnStep =
  w_step :: int
  w_action :: string
  w_itemId :: string
  w_fromContainer :: "string option"
  w_toContainer :: "string option"

text \<open>\<open>str\<close> of an integer, as the f-strings of the reasons print it.\<close>

fun str_nat :: "nat \<Rightarrow> string" where
  "str_nat n = (if n < 10 then [''0123456789'' ! n]
                else str_nat (n div 10) @ [''0123456789'' ! (n mod 10)])"

definition str_int :: "int \<Rightarrow> string" where
  "str_int i = (if i < 0 then CHR ''-'' # str_nat (nat (- i)) else str_nat (nat i))"

text \<open>
  One pass of the classification loop for one item: the reason when the item is waste,
  and the item with its flag set. The \<open>elif\<close> chain is kept in the order of the source.
\<close>

definition classify_item ::
  "(string \<Rightarrow> datetime option) \<Rightarrow> datetime \<Rightarrow> item \<Rightarrow> string option \<times> item" where
  "classify_item fromisoformat current_date it =
     (if isWaste it then
        (if usageLimit it \<le> 0 then (Some ''Out of Uses'', it)
         else if expiryDate it \<noteq> ''N/A'' then
           (case fromisoformat (expiryDate it) of
              None \<Rightarrow> (Some ''Manually Marked'', it)
            | Some expiry_date \<Rightarrow>
                if days_between expiry_date current_date \<le> 0 then (Some ''Expired'', it)
                else (Some ''Manually Marked'', it))
         else (Some ''Manually Marked'', it))
      else if expiryDate it \<noteq> ''N/A'' then
        (case fromisoformat (expiryDate it) of
           None \<Rightarrow> (None, it)
         | Some expiry_date \<Rightarrow>
             let days_until_expiry = days_between expiry_date current_date
             in if days_until_expiry \<le> 0 then (Some ''Expired'', it\<lparr>isWaste := True\<rparr>)
                else if days_until_expiry \<le> 5
                then (Some (''Expires in '' @ str_int days_until_expiry @ '' days''),
                      it\<lparr>isWaste := True\<rparr>)
                else (None, it))
      else if usageLimit it \<le> 0 then (Some ''Out of Uses'', it\<lparr>isWaste := True\<rparr>)
      else if 0 < usageLimit it \<and> usageLimit it \<le> 3
      then (Some (''Only '' @ str_int (usageLimit it) @ '' uses remaining''),
            it\<lparr>isWaste := True\<rparr>)
      else (None, it))"

definition waste_item_of :: "string \<Rightarrow> item \<Rightarrow> string \<Rightarrow> WasteItem" where
  "waste_item_of item_id it r =
     (case currentLocation it of
        None \<Rightarrow> \<lparr>wi_itemId = item_id, wi_name = name it, reason = r, wi_containerId = None,
                  wi_position = None, wi_mass = mass it\<rparr>
      | Some l \<Rightarrow>
          (case loc_containerId l of
             None \<Rightarrow> \<lparr>wi_itemId = item_id, wi_name = name it, reason = r, wi_containerId = None,
                       wi_position = None, wi_mass = mass it\<rparr>
           | Some c \<Rightarrow> \<lparr>wi_itemId = item_id, wi_name = name it, reason = r,
                         wi_containerId = Some c, wi_position = loc_position l,
                         wi_mass = mass it\<rparr>))"

text \<open>
  The classification loop over the dictionary, in its order: the waste list, the total
  mass and the entries with the flags set.
\<close>

fun classify_loop ::
  "(string \<Rightarrow> datetime option) \<Rightarrow> datetime \<Rightarrow> item dict \<Rightarrow>
   WasteItem list \<times> rat \<times> item dict" where
  "classify_loop fromisoformat current_date [] = ([], 0, [])"
| "classify_loop fromisoformat current_date ((item_id, it) # rest) =
     (case classify_item fromisoformat current_date it of
        (r, it') \<Rightarrow>
          (case classify_loop fromisoformat current_date rest of
             (ws, total_mass, rest') \<Rightarrow>
               (case r of
                  None \<Rightarrow> (ws, total_mass, (item_id, it') # rest')
                | Some r' \<Rightarrow> (waste_item_of item_id it' r' # ws, mass it' + total_mass,
                              (item_id, it') # rest'))))"

text \<open>Substring test \<open>sub in s\<close> and \<open>s.split(" ")\<close>.\<close>

fun py_in :: "string \<Rightarrow> string \<Rightarrow> bool" where
  "py_in sub [] = (sub = [])"
| "py_in sub (c # cs) = (take (length sub) (c # cs) = sub \<or> py_in sub cs)"

fun split_space :: "string \<Rightarrow> string list" where
  "split_space [] = [[]]"
| "split_space (c # cs) =
     (if c = CHR '' '' then [] # split_space cs
      else (case split_space cs of [] \<Rightarrow> [[c]] | w # ws \<Rightarrow> (c # w) # ws))"

definition nth_opt :: "'a list \<Rightarrow> nat \<Rightarrow> 'a option" where
  "nth_opt xs i = (if i < length xs then Some (xs ! i) else None)"

definition get_urgency_score ::
  "(string \<Rightarrow> int option) \<Rightarrow> item dict \<Rightarrow> WasteItem \<Rightarrow> rat" where
  "get_urgency_score parse_int items waste_item =
     (case map_of items (wi_itemId waste_item) of
        None \<Rightarrow> 0
      | Some it \<Rightarrow>
          let score =
                (if py_in ''Expired'' (reason waste_item) \<or> py_in ''Out of Uses'' (reason waste_item)
                 then 100
                 else if py_in ''Expires in'' (reason waste_item) then
                   (case nth_opt (split_space (reason waste_item)) 2 of
                      None \<Rightarrow> 50
                    | Some tok \<Rightarrow> (case parse_int tok of None \<Rightarrow> 50
                                   | Some days \<Rightarrow> 100 - of_int days * 10))
                 else if py_in ''uses remaining'' (reason waste_item) then
                   (case nth_opt (split_space (reason waste_item)) 1 of
                      None \<Rightarrow> 30
                    | Some tok \<Rightarrow> (case parse_int tok of None \<Rightarrow> 30
                                   | Some uses \<Rightarrow> 50 - of_int uses * 10))
                 else 0)
          in score - min 30 (of_int (priority it) / 3) + min 20 (mass it * 2))"

text \<open>\<open>sorted(..., key=get_urgency_score, reverse=True)\<close>: descending and stable.\<close>

definition sort_waste_by_urgency ::
  "(string \<Rightarrow> int option) \<Rightarrow> WasteItem list \<Rightarrow> item dict \<Rightarrow> WasteItem list" where
  "sort_waste_by_urgency parse_int waste_items items =
     sort_key (\<lambda>w. - get_urgency_score parse_int items w) waste_items"

text \<open>
  Grouping waste items by their container, in the order the containers first occur. An
  absent or empty \<open>containerId\<close> is falsy.
\<close>

definition has_containerId :: "WasteItem \<Rightarrow> bool" where
  "has_containerId w = (case wi_containerId w of None \<Rightarrow> False | Some c \<Rightarrow> c \<noteq> [])"

fun group_by_container ::
  "WasteItem list \<Rightarrow> (string \<times> WasteItem list) list \<Rightarrow> (string \<times> WasteItem list) list" where
  "group_by_container [] acc = acc"
| "group_by_container (w # ws) acc =
     (case wi_containerId w of
        None \<Rightarrow> group_by_container ws acc
      | Some c \<Rightarrow>
          if c = [] then group_by_container ws acc
          else group_by_container ws
                 (AList.update c ((case map_of acc c of None \<Rightarrow> [] | Some l \<Rightarrow> l) @ [w]) acc))"

text \<open>The access order within a container: ascending y, descending z, ascending x.\<close>

definition access_key :: "WasteItem \<Rightarrow> rat \<times> rat \<times> rat" where
  "access_key w = (case wi_position w of
                     None \<Rightarrow> (0, 0, 0)
                   | Some (x, y, z) \<Rightarrow> (y, - z, x))"

definition sort_by_access :: "WasteItem list \<Rightarrow> WasteItem list" where
  "sort_by_access ws =
     (if list_all (\<lambda>w. wi_position w \<noteq> None) ws then sort_key access_key ws else ws)"

fun emit_remove ::
  "string option \<Rightarrow> WasteItem list \<Rightarrow> WasteReturnStep list \<Rightarrow> int \<Rightarrow>
   WasteReturnStep list \<times> int" where
  "emit_remove from_c [] steps step_count = (steps, step_count)"
| "emit_remove from_c (w # ws) steps step_count =
     emit_remove from_c ws
       (steps @ [\<lparr>w_step = step_count, w_action = ''remove'', w_itemId = wi_itemId w,
                  w_fromContainer = from_c, w_toContainer = None\<rparr>])
       (step_count + 1)"

fun emit_groups ::
  "(string \<times> WasteItem list) list \<Rightarrow> WasteReturnStep list \<Rightarrow> int \<Rightarrow>
   WasteReturnStep list \<times> int" where
  "emit_groups [] steps step_count = (steps, step_count)"
| "emit_groups ((container_id, ws) # rest) steps step_count =
     (if ws = [] then emit_groups rest steps step_count
      else (case emit_remove (Some container_id) (sort_by_access ws) steps step_count of
              (steps', step_count') \<Rightarrow> emit_groups rest steps' step_count'))"

fun emit_loose ::
  "WasteItem list \<Rightarrow> WasteReturnStep list \<Rightarrow> int \<Rightarrow> WasteReturnStep list \<times> int" where
  "emit_loose [] steps step_count = (steps, step_count)"
| "emit_loose (w # ws) steps step_count =
     (if \<not> has_containerId w
      then emit_loose ws
             (steps @ [\<lparr>w_step = step_count, w_action = ''remove'', w_itemId = wi_itemId w,
                        w_fromContainer = None, w_toContainer = None\<rparr>])
             (step_count + 1)
      else emit_loose ws steps step_count)"

definition generate_optimized_waste_return_steps :: "WasteItem list \<Rightarrow> WasteReturnStep list" where
  "generate_optimized_waste_return_steps waste_items =
     (case emit_groups (group_by_container waste_items []) [] 1 of
        (steps, step_count) \<Rightarrow> fst (emit_loose waste_items steps step_count))"

definition identify_waste_items ::
  "(string \<Rightarrow> datetime option) \<Rightarrow> (string \<Rightarrow> int option) \<Rightarrow>
   item dict \<Rightarrow> container dict \<Rightarrow> datetime \<Rightarrow>
   (WasteItem list \<times> rat \<times> WasteReturnStep list) \<times> item dict" where
  "identify_waste_items fromisoformat parse_int items containers current_date =
     (case classify_loop fromisoformat current_date items of
        (waste_items, total_waste_mass, items') \<Rightarrow>
          let sorted_waste_items = sort_waste_by_urgency parse_int waste_items items'
          in ((sorted_waste_items, total_waste_mass,
               generate_optimized_waste_return_steps sorted_waste_items), items'))"

subsection \<open>The weight-bounded return plan\<close>

text \<open>
  Python's \<open>int\<close> on a float truncates towards zero. The model truncates the exact
  product \<open>mass * 100\<close>; on floats the product is rounded first, so that
  \<open>int(0.29 * 100)\<close> is 28.
\<close>

definition py_int :: "rat \<Rightarrow> int" where
  "py_int r = (if r \<ge> 0 then \<lfloor>r\<rfloor> else \<lceil>r\<rceil>)"

definition item_value :: "nat \<Rightarrow> nat \<Rightarrow> WasteItem \<Rightarrow> rat" where
  "item_value n i w =
     (let urgency_value = 10 * (1 - (of_nat i / max 1 (of_nat n)));
          mass_value = min 10 (wi_mass w * 2)
      in urgency_value * (7 / 10) + mass_value * (3 / 10))"

definition item_values_of :: "WasteItem list \<Rightarrow> (string \<times> rat) list" where
  "item_values_of waste_items =
     fold (\<lambda>(i, w) acc. AList.update (wi_itemId w) (item_value (length waste_items) i w) acc)
       (enumerate 0 waste_items) []"

text \<open>
  The inner loop \<open>for w in range(scaled_max_weight, scaled_mass - 1, -1)\<close> over the two
  tables \<open>dp\<close> and \<open>selected_items\<close>; the list of weights is handed in. Every index lies
  inside the tables, which have \<open>scaled_max_weight + 1\<close> entries.
\<close>

fun knapsack_inner ::
  "(string \<times> rat) list \<Rightarrow> WasteItem \<Rightarrow> nat \<Rightarrow> nat list \<Rightarrow> rat list \<Rightarrow> string set list \<Rightarrow>
   py_error + (rat list \<times> string set list)" where
  "knapsack_inner item_values it scaled_mass [] dp selected_items = Inr (dp, selected_items)"
| "knapsack_inner item_values it scaled_mass (w # ws) dp selected_items =
     (case map_of item_values (wi_itemId it) of
        None \<Rightarrow> Inl KeyError
      | Some v \<Rightarrow>
          let new_value = dp ! (w - scaled_mass) + v
          in if new_value > dp ! w
             then knapsack_inner item_values it scaled_mass ws
                    (dp[w := new_value])
                    (selected_items[w := insert (wi_itemId it) (selected_items ! (w - scaled_mass))])
             else knapsack_inner item_values it scaled_mass ws dp selected_items)"

fun knapsack_fill ::
  "(string \<times> rat) list \<Rightarrow> nat \<Rightarrow> WasteItem list \<Rightarrow> rat list \<Rightarrow> string set list \<Rightarrow>
   py_error + (rat list \<times> string set list)" where
  "knapsack_fill item_values scaled_max_weight [] dp selected_items = Inr (dp, selected_items)"
| "knapsack_fill item_values scaled_max_weight (it # rest) dp selected_items =
     (let scaled_mass = py_int (wi_mass it * 100)
      in if scaled_mass \<le> 0
         then knapsack_fill item_values scaled_max_weight rest dp selected_items
         else (case knapsack_inner item_values it (nat scaled_mass)
                      (rev [nat scaled_mass..<Suc scaled_max_weight]) dp selected_items of
                 Inl e \<Rightarrow> Inl e
               | Inr (dp', selected_items') \<Rightarrow>
                   knapsack_fill item_values scaled_max_weight rest dp' selected_items'))"

text \<open>\<open>while max_value_weight > 0 and not selected_items[max_value_weight]\<close>.\<close>

fun find_max_value_weight :: "string set list \<Rightarrow> nat \<Rightarrow> nat" where
  "find_max_value_weight selected_items 0 = 0"
| "find_max_value_weight selected_items (Suc n) =
     (if selected_items ! Suc n = {} then find_max_value_weight selected_items n else Suc n)"

text \<open>
  The knapsack selection itself. With a negative scaled capacity both tables are empty
  and \<open>selected_items[max_value_weight]\<close> raises \<open>IndexError\<close>.
\<close>

definition knapsack_select :: "WasteItem list \<Rightarrow> rat \<Rightarrow> py_error + string set" where
  "knapsack_select waste_items max_weight =
     (let item_values = item_values_of waste_items;
          scaled_max_weight = py_int (max_weight * 100)
      in if scaled_max_weight < 0 then Inl IndexError
         else (case knapsack_fill item_values (nat scaled_max_weight) waste_items
                      (replicate (nat scaled_max_weight + 1) 0)
                      (replicate (nat scaled_max_weight + 1) {}) of
                 Inl e \<Rightarrow> Inl e
               | Inr (dp, selected_items) \<Rightarrow>
                   Inr (selected_items ! find_max_value_weight selected_items (nat scaled_max_weight))))"

fun emit_remove_place ::
  "string \<Rightarrow> string \<Rightarrow> WasteItem list \<Rightarrow> WasteReturnStep list \<Rightarrow> int \<Rightarrow>
   WasteReturnStep list \<times> int" where
  "emit_remove_place container_id undock [] steps step_count = (steps, step_count)"
| "emit_remove_place container_id undock (w # ws) steps step_count =
     emit_remove_place container_id undock ws
       (steps @ [\<lparr>w_step = step_count, w_action = ''remove'', w_itemId = wi_itemId w,
                  w_fromContainer = Some container_id, w_toContainer = None\<rparr>,
                 \<lparr>w_step = step_count + 1, w_action = ''place'', w_itemId = wi_itemId w,
                  w_fromContainer = None, w_toContainer = Some undock\<rparr>])
       (step_count + 2)"

fun emit_selected_groups ::
  "string \<Rightarrow> string set \<Rightarrow> (string \<times> WasteItem list) list \<Rightarrow> WasteReturnStep list \<Rightarrow> int \<Rightarrow>
   WasteReturnStep list \<times> int" where
  "emit_selected_groups undock final_selected_items [] steps step_count = (steps, step_count)"
| "emit_selected_groups undock final_selected_items ((container_id, ws) # rest) steps step_count =
     (let selected_container_items = filter (\<lambda>w. wi_itemId w \<in> final_selected_items) ws
      in if selected_container_items = []
         then emit_selected_groups undock final_selected_items rest steps step_count
         else (case emit_remove_place container_id undock
                      (sort_by_access selected_container_items) steps step_count of
                 (steps', step_count') \<Rightarrow>
                   emit_selected_groups undock final_selected_items rest steps' step_count'))"

fun emit_selected_loose ::
  "string \<Rightarrow> (string \<Rightarrow> WasteItem option) \<Rightarrow> string list \<Rightarrow> WasteReturnStep list \<Rightarrow> int \<Rightarrow>
   WasteReturnStep list \<times> int" where
  "emit_selected_loose undock item_map [] steps step_count = (steps, step_count)"
| "emit_selected_loose undock item_map (item_id # rest) steps step_count =
     (case item_map item_id of
        None \<Rightarrow> emit_selected_loose undock item_map rest steps step_count
      | Some w \<Rightarrow>
          if has_containerId w then emit_selected_loose undock item_map rest steps step_count
          else emit_selected_loose undock item_map rest
                 (steps @ [\<lparr>w_step = step_count, w_action = ''place'', w_itemId = wi_itemId w,
                            w_fromContainer = None, w_toContainer = Some undock\<rparr>])
                 (step_count + 1))"

text \<open>
  \<open>final_selected_items\<close> is a Python \<open>set\<close>; its enumeration in the last loop is the
  parameter \<open>set_iter\<close>. \<open>item_map\<close> keeps the last waste item of each id.
\<close>

definition generate_waste_return_plan ::
  "(string set \<Rightarrow> string list) \<Rightarrow> WasteItem list \<Rightarrow> rat \<Rightarrow> string \<Rightarrow>
   py_error + WasteReturnStep list" where
  "generate_waste_return_plan set_iter waste_items max_weight undocking_container_id =
     (if waste_items = [] then Inr []
      else (case knapsack_select waste_items max_weight of
              Inl e \<Rightarrow> Inl e
            | Inr final_selected_items \<Rightarrow>
                let container_items = group_by_container waste_items [];
                    item_map = map_of (rev (map (\<lambda>w. (wi_itemId w, w)) waste_items))
                in (case emit_selected_groups undocking_container_id final_selected_items
                           container_items [] 1 of
                      (steps, step_count) \<Rightarrow>
                        Inr (fst (emit_selected_loose undocking_container_id item_map
                                    (set_iter final_selected_items) steps step_count)))))"

subsection \<open>Undock completion\<close>

fun undock_loop :: "string list \<Rightarrow> item dict \<Rightarrow> container dict \<Rightarrow> item dict \<times> container dict" where
  "undock_loop [] items containers = (items, containers)"
| "undock_loop (item_id # rest) items containers =
     (case map_of items item_id of
        None \<Rightarrow> undock_loop rest items containers
      | Some it \<Rightarrow>
          let containers' =
                (case currentLocation it of
                   None \<Rightarrow> containers
                 | Some l \<Rightarrow>
                     (case loc_containerId l of
                        None \<Rightarrow> containers
                      | Some container_id \<Rightarrow>
                          (case map_of containers container_id of
                             None \<Rightarrow> containers
                           | Some c \<Rightarrow> AList.update container_id
                                         (remove_item c item_id (get_volume it)) containers)))
          in undock_loop rest (AList.update item_id (it\<lparr>currentLocation := None\<rparr>) items)
               containers')"

definition complete_undocking ::
  "(string set \<Rightarrow> string list) \<Rightarrow> WasteItem list \<Rightarrow> WasteReturnStep list \<Rightarrow>
   item dict \<Rightarrow> container dict \<Rightarrow> nat \<times> item dict \<times> container dict" where
  "complete_undocking set_iter waste_items plan_steps items containers =
     (let removed_item_ids =
            set (map w_itemId
                   (filter (\<lambda>s. w_action s \<in> set [''move'', ''remove'', ''place'']) plan_steps))
      in (card removed_item_ids, undock_loop (set_iter removed_item_ids) items containers))"

section \<open>services/simulation.py\<close>

text \<open>
  Dates are unbounded here; Python raises \<open>OverflowError\<close> when
  \<open>current_date + timedelta(days=num_days)\<close> leaves the range of \<open>datetime\<close>, before any
  item is touched.
\<close>

definition expired_waste_item :: "string \<Rightarrow> item \<Rightarrow> WasteItem" where
  "expired_waste_item item_id it =
     \<lparr>wi_itemId = item_id, wi_name = name it, reason = ''Expired'',
      wi_containerId = (case currentLocation it of None \<Rightarrow> None | Some l \<Rightarrow> loc_containerId l),
      wi_position = (case currentLocation it of None \<Rightarrow> None | Some l \<Rightarrow> loc_position l),
      wi_mass = mass it\<rparr>"

fun expiry_loop ::
  "(string \<Rightarrow> datetime option) \<Rightarrow> datetime \<Rightarrow> datetime \<Rightarrow> item dict \<Rightarrow>
   item dict \<times> WasteItem list" where
  "expiry_loop fromisoformat current_date new_date [] = ([], [])"
| "expiry_loop fromisoformat current_date new_date ((item_id, it) # rest) =
     (case expiry_loop fromisoformat current_date new_date rest of
        (rest', ws) \<Rightarrow>
          if isWaste it then ((item_id, it) # rest', ws)
          else if expiryDate it \<noteq> ''N/A'' then
            (case fromisoformat (expiryDate it) of
               None \<Rightarrow> ((item_id, it) # rest', ws)
             | Some expiry_date \<Rightarrow>
                 if expiry_date \<le> new_date \<and> expiry_date > current_date
                 then ((item_id, it\<lparr>isWaste := True\<rparr>) # rest',
                       expired_waste_item item_id (it\<lparr>isWaste := True\<rparr>) # ws)
                 else ((item_id, it) # rest', ws))
          else ((item_id, it) # rest', ws))"

definition simulate_days ::
  "(string \<Rightarrow> datetime option) \<Rightarrow> int \<Rightarrow> datetime \<Rightarrow> item dict \<Rightarrow>
   datetime \<times> item dict \<times> WasteItem list" where
  "simulate_days fromisoformat num_days current_date items =
     (let new_date = current_date + timedelta_days num_days
      in (case expiry_loop fromisoformat current_date new_date items of
            (updated_items, waste_items) \<Rightarrow> (new_date, updated_items, waste_items)))"

section \<open>app.py: the simulation route\<close>

text \<open>
  The route works on the stored list of item dictionaries (here: item records, an absent
  \<open>isWaste\<close> key reading as \<open>False\<close>) and on the global \<open>CURRENT_DATE\<close>. \<open>items_data\<close> is
  the dictionary of \<open>Item\<close> objects built from the list.
\<close>

definition items_data_of :: "item list \<Rightarrow> item dict" where
  "items_data_of items_list = fold (\<lambda>d acc. AList.update (itemId d) d acc) items_list []"

fun update_first :: "('a \<Rightarrow> bool) \<Rightarrow> ('a \<Rightarrow> 'a) \<Rightarrow> 'a list \<Rightarrow> 'a list" where
  "update_first P f [] = []"
| "update_first P f (d # ds) = (if P d then f d # ds else d # update_first P f ds)"

fun use_items :: "string list \<Rightarrow> item dict \<Rightarrow> item list \<Rightarrow> item dict \<times> item list" where
  "use_items [] items_data items_list = (items_data, items_list)"
| "use_items (item_id # rest) items_data items_list =
     (case map_of items_data item_id of
        None \<Rightarrow> use_items rest items_data items_list
      | Some it \<Rightarrow>
          if usageLimit it > 0 then
            (let it' = it\<lparr>usageLimit := usageLimit it - 1\<rparr>;
                 items_list' =
                   update_first (\<lambda>d. itemId d = item_id)
                     (\<lambda>d. let d' = d\<lparr>usageLimit := usageLimit it'\<rparr>
                          in if usageLimit it' \<le> 0 then d'\<lparr>isWaste := True\<rparr> else d')
                     items_list
             in use_items rest (AList.update item_id it' items_data) items_list')
          else use_items rest items_data items_list)"

fun write_back_waste :: "item dict \<Rightarrow> item list \<Rightarrow> item list" where
  "write_back_waste [] items_list = items_list"
| "write_back_waste ((item_id, it) # rest) items_list =
     write_back_waste rest
       (update_first (\<lambda>d. itemId d = item_id) (\<lambda>d. d\<lparr>isWaste := isWaste it\<rparr>) items_list)"

record simulate_response =
  sim_items_list :: "item list"
  sim_current_date :: datetime
  oldDate :: datetime
  newDate :: datetime
  expiringItems :: "WasteItem list"
  usageDepletedItems :: "WasteItem list"

definition app_simulate_days ::
  "(string \<Rightarrow> datetime option) \<Rightarrow> int \<Rightarrow> string option \<Rightarrow> string list \<Rightarrow>
   item list \<Rightarrow> datetime \<Rightarrow> simulate_response" where
  "app_simulate_days fromisoformat numOfDays to_timestamp items_to_use items_list CURRENT_DATE =
     (case use_items items_to_use (items_data_of items_list) items_list of
        (items_data, items_list1) \<Rightarrow>
          let days = (case to_timestamp of
                        None \<Rightarrow> numOfDays
                      | Some ts \<Rightarrow>
                          if ts = [] then numOfDays
                          else (case fromisoformat ts of
                                  None \<Rightarrow> numOfDays
                                | Some target_date \<Rightarrow>
                                    max 1 (days_between target_date CURRENT_DATE)))
          in (case simulate_days fromisoformat days CURRENT_DATE items_data of
                (new_date, updated_items, waste_items) \<Rightarrow>
                  \<lparr>sim_items_list = write_back_waste updated_items items_list1,
                   sim_current_date = new_date,
                   oldDate = CURRENT_DATE,
                   newDate = new_date,
                   expiringItems = filter (\<lambda>w. reason w = ''Expired'') waste_items,
                   usageDepletedItems = filter (\<lambda>w. reason w = ''Out of Uses'') waste_items\<rparr>))"

section \<open>services/placement.py\<close>

record ItemPlacement =
  p_itemId :: string
  p_containerId :: string
  p_position :: vec3
  p_rotation :: vec3

record PlacementResponse =
  placements :: "ItemPlacement list"
  rearrangements :: "RearrangementStep list"

text \<open>\<open>datetime.now()\<close> is the parameter \<open>now\<close>.\<close>

definition get_weighted_score :: "(string \<Rightarrow> datetime option) \<Rightarrow> datetime \<Rightarrow> item \<Rightarrow> rat" where
  "get_weighted_score fromisoformat now it =
     (let days_until_expiry =
            (if expiryDate it \<noteq> ''N/A''
             then (case fromisoformat (expiryDate it) of
                     None \<Rightarrow> 365
                   | Some expiry_date \<Rightarrow> max 0 (days_between expiry_date now))
             else 365)
      in of_int (priority it * 2) - of_int (min 100 days_until_expiry)
         + of_int (min 100 (usageLimit it)) * (1 / 2))"

definition sort_items :: "(string \<Rightarrow> datetime option) \<Rightarrow> datetime \<Rightarrow> item dict \<Rightarrow> item dict" where
  "sort_items fromisoformat now items =
     sort_key (\<lambda>(k, x). (- get_weighted_score fromisoformat now x, - get_volume x)) items"

text \<open>
  The search for the best placement of one item. The best candidate so far is
  \<open>None\<close> while \<open>best_score\<close> is minus infinity; a candidate holds \<open>best_score\<close>, the
  dictionary key of the container, \<open>best_container\<close>, \<open>best_space_model\<close>,
  \<open>best_position\<close> and \<open>best_rotation\<close>.
\<close>

type_synonym 'sp candidate = "rat \<times> string \<times> container \<times> 'sp \<times> vec3 \<times> vec3"

fun try_rotations ::
  "'sp space3d \<Rightarrow> item \<Rightarrow> string \<Rightarrow> container \<Rightarrow> 'sp \<Rightarrow> rat \<Rightarrow> vec3 list \<Rightarrow>
   'sp candidate option \<Rightarrow> 'sp candidate option" where
  "try_rotations sp it container_id c space_model base_score [] best = best"
| "try_rotations sp it container_id c space_model base_score ((w, d, h) # rotations) best =
     (if w > cont_width c \<or> d > cont_depth c \<or> h > cont_height c
      then try_rotations sp it container_id c space_model base_score rotations best
      else (case find_position sp space_model (w, d, h) of
              None \<Rightarrow> try_rotations sp it container_id c space_model base_score rotations best
            | Some position \<Rightarrow>
                let retrieval_complexity = sp_retrieval_complexity sp space_model position (w, d, h);
                    position_score = base_score + 500 * (of_int (priority it) / 100)
                                     - of_int retrieval_complexity * 50;
                    better = (case best of None \<Rightarrow> True
                              | Some (best_score, _) \<Rightarrow> position_score > best_score)
                in try_rotations sp it container_id c space_model base_score rotations
                     (if better
                      then Some (position_score, container_id, c, space_model, position, (w, d, h))
                      else best)))"

fun try_containers ::
  "'sp space3d \<Rightarrow> item \<Rightarrow> 'sp dict \<Rightarrow> container dict \<Rightarrow> 'sp candidate option \<Rightarrow>
   py_error + 'sp candidate option" where
  "try_containers sp it container_spaces [] best = Inr best"
| "try_containers sp it container_spaces ((container_id, c) # rest) best =
     (if is_full c then try_containers sp it container_spaces rest best
      else (case map_of container_spaces container_id of
              None \<Rightarrow> Inl KeyError
            | Some space_model \<Rightarrow>
                try_containers sp it container_spaces rest
                  (try_rotations sp it container_id c space_model
                     (if zone c = preferredZone it then 1000 else 0)
                     (get_all_rotations it) best)))"

text \<open>
  The loop over the sorted items. Each \<open>Item\<close> object is visited once, so the entry of
  the sorted list is the state of the object when its turn comes; the placement writes the
  new location back under the entry's key. The state is the two stores, the space
  models, the placements and the set of placed ids.
\<close>

record 'sp placement_state =
  ps_items :: "item dict"
  ps_containers :: "container dict"
  ps_spaces :: "'sp dict"
  ps_placements :: "ItemPlacement list"
  ps_placed :: "string set"

definition place_one ::
  "'sp space3d \<Rightarrow> string \<Rightarrow> item \<Rightarrow> 'sp placement_state \<Rightarrow> py_error + 'sp placement_state" where
  "place_one sp key it st =
     (if currentLocation it \<noteq> None \<and> has_container it then Inr st
      else (case try_containers sp it (ps_spaces st) (ps_containers st) None of
              Inl e \<Rightarrow> Inl e
            | Inr None \<Rightarrow> Inr st
            | Inr (Some (best_score, container_id, best_container, best_space_model,
                         best_position, best_rotation)) \<Rightarrow>
                let l = (case currentLocation it of
                           None \<Rightarrow> \<lparr>loc_containerId = None, loc_position = None,
                                     loc_rotation = None\<rparr>
                         | Some l0 \<Rightarrow> l0)
                in Inr \<lparr>ps_items = AList.update key
                           (it\<lparr>currentLocation :=
                                 Some (l\<lparr>loc_containerId := Some (containerId best_container),
                                          loc_position := Some best_position,
                                          loc_rotation := Some best_rotation\<rparr>)\<rparr>)
                           (ps_items st),
                        ps_containers = AList.update container_id
                           (snd (add_item best_container (itemId it) (get_volume it)))
                           (ps_containers st),
                        ps_spaces = AList.update container_id
                           (place_item sp best_space_model best_position best_rotation)
                           (ps_spaces st),
                        ps_placements = ps_placements st @
                           [\<lparr>p_itemId = itemId it,
                             p_containerId = containerId best_container,
                             p_position = best_position, p_rotation = best_rotation\<rparr>],
                        ps_placed = insert (itemId it) (ps_placed st)\<rparr>))"

fun place_all ::
  "'sp space3d \<Rightarrow> item dict \<Rightarrow> 'sp placement_state \<Rightarrow> py_error + 'sp placement_state" where
  "place_all sp [] st = Inr st"
| "place_all sp ((key, it) # rest) st =
     (case place_one sp key it st of
        Inl e \<Rightarrow> Inl e
      | Inr st' \<Rightarrow> place_all sp rest st')"

subsection \<open>The rearrangement plan\<close>

text \<open>A candidate to move: the item, its container and its value density.\<close>

type_synonym move_candidate = "item \<times> container \<times> rat"

definition low_priority_candidates :: "item \<Rightarrow> item dict \<Rightarrow> container dict \<Rightarrow> move_candidate list" where
  "low_priority_candidates target_item all_items containers =
     concat (map (\<lambda>(container_id, c).
        if zone c \<noteq> preferredZone target_item then []
        else concat (map (\<lambda>item_id.
               (case map_of all_items item_id of
                  None \<Rightarrow> []
                | Some it \<Rightarrow>
                    if priority it < priority target_item
                    then [(it, c, of_int (priority it) / max (1 / 10) (get_volume it))]
                    else []))
               (cont_items c)))
        containers)"

fun best_alt_container :: "string \<Rightarrow> item \<Rightarrow> container dict \<Rightarrow> container option" where
  "best_alt_container preferred_zone it [] = None"
| "best_alt_container preferred_zone it ((alt_container_id, alt_container) # rest) =
     (if zone alt_container = preferred_zone \<or> is_full alt_container \<or>
         get_volume it > get_available_space alt_container
      then best_alt_container preferred_zone it rest
      else Some alt_container)"

fun move_candidates ::
  "string \<Rightarrow> rat \<Rightarrow> container dict \<Rightarrow> move_candidate list \<Rightarrow> rat \<Rightarrow>
   RearrangementStep list \<Rightarrow> int \<Rightarrow> RearrangementStep list \<times> int \<times> rat" where
  "move_candidates preferred_zone target_volume containers [] moved_volume steps step_count =
     (steps, step_count, moved_volume)"
| "move_candidates preferred_zone target_volume containers ((it, c, vd) # rest) moved_volume
     steps step_count =
     (if moved_volume \<ge> target_volume then (steps, step_count, moved_volume)
      else move_candidates preferred_zone target_volume containers rest
             (moved_volume + get_volume it)
             (steps @ [\<lparr>step = step_count, action = ''move'', step_itemId = itemId it,
                        fromContainer = Some (containerId c),
                        toContainer =
                          (case best_alt_container preferred_zone it containers of
                             Some alt \<Rightarrow> Some (containerId alt)
                           | None \<Rightarrow> Some ''temporary_storage''),
                        step_position = None\<rparr>])
             (step_count + 1))"

fun rearrange_targets ::
  "item list \<Rightarrow> item dict \<Rightarrow> container dict \<Rightarrow> RearrangementStep list \<Rightarrow> int \<Rightarrow>
   RearrangementStep list" where
  "rearrange_targets [] all_items containers steps step_count = steps"
| "rearrange_targets (target_item # rest) all_items containers steps step_count =
     (let preferred_zone = preferredZone target_item;
          candidates = sort_key (\<lambda>(it, c, vd). vd)
                         (low_priority_candidates target_item all_items containers);
          target_volume = get_volume target_item
      in (case move_candidates preferred_zone target_volume containers candidates 0
                 steps step_count of
            (steps', step_count', moved_volume) \<Rightarrow>
              (case (if moved_volume \<ge> target_volume
                     then filter (\<lambda>(c_id, c). zone c = preferred_zone) containers else []) of
                 [] \<Rightarrow> rearrange_targets rest all_items containers steps' step_count'
               | (c_id, c) # _ \<Rightarrow>
                   rearrange_targets rest all_items containers
                     (steps' @ [\<lparr>step = step_count', action = ''place'',
                                 step_itemId = itemId target_item,
                                 fromContainer = None,
                                 toContainer = Some (containerId c),
                                 step_position = None\<rparr>])
                     (step_count' + 1))))"

definition generate_rearrangement_plan ::
  "item list \<Rightarrow> item dict \<Rightarrow> container dict \<Rightarrow> RearrangementStep list" where
  "generate_rearrangement_plan unplaced_items all_items containers =
     rearrange_targets (take 5 (sort_key (\<lambda>x. - priority x) unplaced_items))
       all_items containers [] 1"

text \<open>
  \<open>calculate_placement\<close> returns the response and mutates the items and containers; the
  model returns the two stores as well. An item that is not placed is not mutated, and a
  placed one has its id in \<open>placed_items\<close>, so the unplaced items are read off the sorted
  entries.
\<close>

definition calculate_placement ::
  "'sp space3d \<Rightarrow> (string \<Rightarrow> datetime option) \<Rightarrow> datetime \<Rightarrow> item dict \<Rightarrow> container dict \<Rightarrow>
   py_error + (PlacementResponse \<times> item dict \<times> container dict)" where
  "calculate_placement sp fromisoformat now items containers =
     (let container_spaces =
            fold (\<lambda>(container_id, c) acc.
                    AList.update container_id
                      (new_space sp (cont_width c) (cont_depth c) (cont_height c)) acc)
              containers [];
          sorted_items = sort_items fromisoformat now items
      in (case place_all sp sorted_items
                 \<lparr>ps_items = items, ps_containers = containers, ps_spaces = container_spaces,
                  ps_placements = [], ps_placed = {}\<rparr> of
            Inl e \<Rightarrow> Inl e
          | Inr st \<Rightarrow>
              let unplaced_items =
                    filter (\<lambda>it. itemId it \<notin> ps_placed st \<and> \<not> has_container it)
                      (map snd sorted_items)
              in Inr (\<lparr>placements = ps_placements st,
                       rearrangements =
                         (if unplaced_items \<noteq> []
                          then generate_rearrangement_plan unplaced_items (ps_items st)
                                 (ps_containers st)
                          else [])\<rparr>,
                      ps_items st, ps_containers st)))"

section \<open>The space model of the specification\<close>

text \<open>
  Modelled from the spec: the class \<open>Space3D\<close> of \<open>utils.space3d\<close>, whose source is
  missing. The specification gives a container of dimensions \<open>(W, D, H)\<close> with the boxes
  placed in it, on integer coordinates. \<open>find_position\<close> returns the corner with the
  lowest y, then the lowest z, then the lowest x at which the box lies inside the
  container and meets no placed box; \<open>place\<close> marks the box occupied;
  \<open>retrieval_depth\<close> counts the placed boxes that meet the projection of the box onto the
  x-z plane and do not lie wholly behind its front face.
\<close>

record spec_space =
  sm_dims :: vec3
  sm_boxes :: "(vec3 \<times> vec3) list"

definition boxes_intersect :: "vec3 \<Rightarrow> vec3 \<Rightarrow> vec3 \<Rightarrow> vec3 \<Rightarrow> bool" where
  "boxes_intersect p r p' r' =
     (case (p, r, p', r') of
        ((x, y, z), (w, d, h), (x', y', z'), (w', d', h')) \<Rightarrow>
          x < x' + w' \<and> x' < x + w \<and> y < y' + d' \<and> y' < y + d \<and> z < z' + h' \<and> z' < z + h)"

definition spec_find_position :: "spec_space \<Rightarrow> vec3 \<Rightarrow> vec3 option" where
  "spec_find_position m r =
     (case (sm_dims m, r) of
        ((W, D, H), (w, d, h)) \<Rightarrow>
          List.find (\<lambda>p. \<not> list_ex (\<lambda>(p', r'). boxes_intersect p r p' r') (sm_boxes m))
            (concat (map (\<lambda>y. concat (map (\<lambda>z. map (\<lambda>x. (of_int x, of_int y, of_int z))
                                                  [0..\<lfloor>W - w\<rfloor>])
                                          [0..\<lfloor>H - h\<rfloor>]))
                       [0..\<lfloor>D - d\<rfloor>])))"

definition spec_retrieval_depth :: "spec_space \<Rightarrow> vec3 \<Rightarrow> vec3 \<Rightarrow> int" where
  "spec_retrieval_depth m p r =
     (case (p, r) of
        ((x, y, z), (w, d, h)) \<Rightarrow>
          int (length (filter (\<lambda>((x', y', z'), (w', d', h')).
                 x < x' + w' \<and> x' < x + w \<and> z < z' + h' \<and> z' < z + h \<and> \<not> (y' + d' \<le> y))
               (sm_boxes m))))"

definition spec_space3d :: "spec_space space3d" where
  "spec_space3d =
     \<lparr>new_space = (\<lambda>W D H. \<lparr>sm_dims = (W, D, H), sm_boxes = []\<rparr>),
      place_item = (\<lambda>m p r. m\<lparr>sm_boxes := sm_boxes m @ [(p, r)]\<rparr>),
      find_position = spec_find_position,
      sp_retrieval_complexity = spec_retrieval_depth\<rparr>"

section \<open>The core operations on the stores\<close>

text \<open>
  The enumeration of a Python \<open>set\<close> that follows a given priority list: a concrete
  instance of the enumeration parameters.
\<close>

definition enum_by :: "'a list \<Rightarrow> 'a set \<Rightarrow> 'a list" where
  "enum_by order S = filter (\<lambda>x. x \<in> S) order"

record core_state =
  st_items :: "item dict"
  st_containers :: "container dict"

datatype core_op =
    Placement datetime
  | Retrieval string string
  | WasteIdentification datetime
  | WasteReturn datetime rat string
  | Simulation int datetime
  | UndockCompletion "WasteItem list" "WasteReturnStep list"

text \<open>
  The library functions and enumeration orders the services depend on, gathered in one
  record.
\<close>

record runtime =
  rt_fromisoformat :: "string \<Rightarrow> datetime option"
  rt_parse_int :: "string \<Rightarrow> int option"
  rt_iter_pairs :: "(string \<times> string) set \<Rightarrow> (string \<times> string) list"
  rt_iter_ids :: "string set \<Rightarrow> string list"

text \<open>
  One core operation on the stores. The waste-return operation identifies the waste and
  plans its return, as the route \<open>/api/waste/return-plan\<close> does.
\<close>

fun run_op :: "'sp space3d \<Rightarrow> runtime \<Rightarrow> core_op \<Rightarrow> core_state \<Rightarrow> py_error + core_state" where
  "run_op sp rt (Placement now) s =
     (case calculate_placement sp (rt_fromisoformat rt) now (st_items s) (st_containers s) of
        Inl e \<Rightarrow> Inl e
      | Inr (response, items', containers') \<Rightarrow>
          Inr \<lparr>st_items = items', st_containers = containers'\<rparr>)"
| "run_op sp rt (Retrieval item_id user_id) s =
     (case retrieve_item sp (rt_iter_pairs rt) item_id user_id (st_items s) (st_containers s) of
        Inl e \<Rightarrow> Inl e
      | Inr (success, steps, items', containers') \<Rightarrow>
          Inr \<lparr>st_items = items', st_containers = containers'\<rparr>)"
| "run_op sp rt (WasteIdentification current_date) s =
     (case identify_waste_items (rt_fromisoformat rt) (rt_parse_int rt) (st_items s)
             (st_containers s) current_date of
        (result, items') \<Rightarrow> Inr (s\<lparr>st_items := items'\<rparr>))"
| "run_op sp rt (WasteReturn current_date max_weight undocking_container_id) s =
     (case identify_waste_items (rt_fromisoformat rt) (rt_parse_int rt) (st_items s)
             (st_containers s) current_date of
        ((waste_items, total_mass, return_steps), items') \<Rightarrow>
          (case generate_waste_return_plan (rt_iter_ids rt) waste_items max_weight
                  undocking_container_id of
             Inl e \<Rightarrow> Inl e
           | Inr plan \<Rightarrow> Inr (s\<lparr>st_items := items'\<rparr>)))"
| "run_op sp rt (Simulation num_days current_date) s =
     (case simulate_days (rt_fromisoformat rt) num_days current_date (st_items s) of
        (new_date, updated_items, waste_items) \<Rightarrow> Inr (s\<lparr>st_items := updated_items\<rparr>))"
| "run_op sp rt (UndockCompletion waste_items plan_steps) s =
     (case complete_undocking (rt_iter_ids rt) waste_items plan_steps (st_items s)
             (st_containers s) of
        (n, items', containers') \<Rightarrow> Inr \<lparr>st_items = items', st_containers = containers'\<rparr>)"

fun run_ops :: "'sp space3d \<Rightarrow> runtime \<Rightarrow> core_op list \<Rightarrow> core_state \<Rightarrow> py_error + core_state" where
  "run_ops sp rt [] s = Inr s"
| "run_ops sp rt (op # ops) s =
     (case run_op sp rt op s of Inl e \<Rightarrow> Inl e | Inr s' \<Rightarrow> run_ops sp rt ops s')"

text \<open>An item's waste flag in a store, by key.\<close>

definition waste_in :: "item dict \<Rightarrow> string \<Rightarrow> bool" where
  "waste_in items k = (case map_of items k of None \<Rightarrow> False | Some it \<Rightarrow> isWaste it)"

section \<open>Concrete scenarios\<close>

definition mk_item :: "string \<Rightarrow> vec3 \<Rightarrow> location option \<Rightarrow> item" where
  "mk_item i dims l =
     (case dims of
        (w, d, h) \<Rightarrow>
          \<lparr>itemId = i, name = i, width = w, depth = d, height = h, mass = 1, priority = 50,
           expiryDate = ''N/A'', usageLimit = 10, preferredZone = ''Z'', isWaste = False,
           currentLocation = l\<rparr>)"

definition at_loc :: "string \<Rightarrow> vec3 \<Rightarrow> vec3 \<Rightarrow> location option" where
  "at_loc c p r = Some \<lparr>loc_containerId = Some c, loc_position = Some p, loc_rotation = Some r\<rparr>"

definition mk_container :: "string \<Rightarrow> vec3 \<Rightarrow> rat \<Rightarrow> string list \<Rightarrow> container" where
  "mk_container c dims occ ids =
     (case dims of
        (w, d, h) \<Rightarrow>
          \<lparr>containerId = c, zone = ''Z'', cont_width = w, cont_depth = d, cont_height = h,
           occupiedSpace = occ, cont_items = ids\<rparr>)"

definition mk_waste :: "string \<Rightarrow> vec3 \<Rightarrow> rat \<Rightarrow> WasteItem" where
  "mk_waste i p m =
     \<lparr>wi_itemId = i, wi_name = i, reason = ''Expired'', wi_containerId = Some ''C'',
      wi_position = Some p, wi_mass = m\<rparr>"

text \<open>
  Scenario S3: a 100 x 100 x 100 container with the target \<open>X\<close> at \<open>(0, 50, 0)\<close>, rotation
  \<open>(20, 20, 20)\<close>, and \<open>Y\<close> at \<open>(0, 0, 0)\<close>, rotation \<open>(20, 50, 20)\<close>.
\<close>

definition s3_items :: "item dict" where
  "s3_items = [(''X'', mk_item ''X'' (20, 20, 20) (at_loc ''C'' (0, 50, 0) (20, 20, 20))),
               (''Y'', mk_item ''Y'' (20, 50, 20) (at_loc ''C'' (0, 0, 0) (20, 50, 20)))]"

definition s3_containers :: "container dict" where
  "s3_containers = [(''C'', mk_container ''C'' (100, 100, 100) 28000 [''X'', ''Y''])]"

text \<open>
  A target \<open>T\<close> at the back position \<open>y = 0\<close> with \<open>A\<close> and \<open>B\<close> at \<open>y = 20\<close> and \<open>y = 40\<close> on
  the same x-z footprint.
\<close>

definition row_items :: "item dict" where
  "row_items = [(''T'', mk_item ''T'' (20, 20, 20) (at_loc ''C'' (0, 0, 0) (20, 20, 20))),
                (''A'', mk_item ''A'' (20, 20, 20) (at_loc ''C'' (0, 20, 0) (20, 20, 20))),
                (''B'', mk_item ''B'' (20, 20, 20) (at_loc ''C'' (0, 40, 0) (20, 20, 20)))]"

definition row_containers :: "container dict" where
  "row_containers = [(''C'', mk_container ''C'' (100, 100, 100) 24000 [''T'', ''A'', ''B''])]"

text \<open>An item with no uses left whose expiry date lies 19 days after the current date 0.\<close>

definition spent_item :: item where
  "spent_item = (mk_item ''Z'' (1, 1, 1) None)\<lparr>usageLimit := 0, expiryDate := ''2030-01-20''\<rparr>"

definition spent_dates :: "string \<Rightarrow> datetime option" where
  "spent_dates = map_of [(''2030-01-20'', 19 * microseconds_per_day)]"

text \<open>Scenario S5: the item \<open>U\<close> with one use left and no expiry date.\<close>

definition s5_item :: item where
  "s5_item = (mk_item ''U'' (1, 1, 1) None)\<lparr>usageLimit := 1\<rparr>"

text \<open>Two waste items of 0.255 kg each.\<close>

definition light_waste :: "WasteItem list" where
  "light_waste = [mk_waste ''W1'' (0, 0, 0) (51 / 200), mk_waste ''W2'' (10, 0, 0) (51 / 200)]"

text \<open>A 3 x 3 x 3 container and two items of 3 x 3 x 2 without a location.\<close>

definition tight_items :: "item dict" where
  "tight_items = [(''A'', mk_item ''A'' (3, 3, 2) None), (''B'', mk_item ''B'' (3, 3, 2) None)]"

definition tight_containers :: "container dict" where
  "tight_containers = [(''C'', mk_container ''C'' (3, 3, 3) 0 [])]"

text \<open>
  The stores after the first and after the second placement call on the tight scenario,
  and a scenario with the single item \<open>A\<close>.
\<close>

definition single_items :: "item dict" where
  "single_items = [(''A'', mk_item ''A'' (3, 3, 2) None)]"

definition single_items_after :: "item dict" where
  "single_items_after = [(''A'', mk_item ''A'' (3, 3, 2) (at_loc ''C'' (0, 0, 0) (3, 3, 2)))]"

definition tight_items_after :: "item dict" where
  "tight_items_after = [(''A'', mk_item ''A'' (3, 3, 2) (at_loc ''C'' (0, 0, 0) (3, 3, 2))),
                        (''B'', mk_item ''B'' (3, 3, 2) None)]"

definition tight_items_twice :: "item dict" where
  "tight_items_twice = [(''A'', mk_item ''A'' (3, 3, 2) (at_loc ''C'' (0, 0, 0) (3, 3, 2))),
                        (''B'', mk_item ''B'' (3, 3, 2) (at_loc ''C'' (0, 0, 0) (3, 3, 2)))]"

definition tight_containers_after :: "container dict" where
  "tight_containers_after = [(''C'', mk_container ''C'' (3, 3, 3) 18 [''A''])]"

definition placement_at_origin :: "string \<Rightarrow> ItemPlacement" where
  "placement_at_origin i =
     \<lparr>p_itemId = i, p_containerId = ''C'', p_position = (0, 0, 0), p_rotation = (3, 3, 2)\<rparr>"

text \<open>
  A store with one item flagged as waste, a runtime, and one run through all six core
  operations.
\<close>

definition flagged_state :: core_state where
  "flagged_state =
     \<lparr>st_items = [(''W'', (mk_item ''W'' (3, 3, 2) None)\<lparr>isWaste := True\<rparr>)],
      st_containers = tight_containers\<rparr>"

definition plain_runtime :: runtime where
  "plain_runtime =
     \<lparr>rt_fromisoformat = Map.empty, rt_parse_int = Map.empty,
      rt_iter_pairs = enum_by [], rt_iter_ids = enum_by [''W'']\<rparr>"

definition all_ops :: "core_op list" where
  "all_ops =
     [Placement 0, WasteIdentification 0, WasteReturn 0 (1 / 2) ''UD'', Simulation 1 0,
      Retrieval ''W'' ''user'',
      UndockCompletion []
        [\<lparr>w_step = 1, w_action = ''place'', w_itemId = ''W'', w_fromContainer = None,
          w_toContainer = Some ''UD''\<rparr>]]"

definition flagged_state_after :: core_state where
  "flagged_state_after =
     \<lparr>st_items = [(''W'', (mk_item ''W'' (3, 3, 2) None)\<lparr>isWaste := True, usageLimit := 9\<rparr>)],
      st_containers = tight_containers\<rparr>"

section \<open>Well-formed stores\<close>

text \<open>
  A Python dictionary has distinct keys, and the routes key the item store by \<open>itemId\<close>.
  \<open>entries_current\<close> says that a list of entries still to be visited agrees with the
  store.
\<close>

definition entries_current :: "item dict \<Rightarrow> item dict \<Rightarrow> bool" where
  "entries_current es items \<longleftrightarrow>
     distinct (map fst es) \<and> (\<forall>(k, it) \<in> set es. map_of items k = Some it)"

definition well_keyed :: "item dict \<Rightarrow> bool" where
  "well_keyed items \<longleftrightarrow> distinct (map fst items) \<and> (\<forall>(k, it) \<in> set items. itemId it = k)"

section \<open>Step numbering\<close>

text \<open>
  The invariant of every loop that emits steps: the ordinals emitted so far are
  \<open>1, ..., step_count - 1\<close>.
\<close>

definition numbered :: "int list \<Rightarrow> int \<Rightarrow> bool" where
  "numbered ns step_count \<longleftrightarrow> 1 \<le> step_count \<and> ns = [1..step_count - 1]"

section \<open>Retrieval\<close>

lemma blocks_iff:
  "blocks (x, y, z) (tw, td, th) (ox, oy, oz) (ow, od, oh) \<longleftrightarrow>
     y \<le> oy \<and> ox < x + tw \<and> x < ox + ow \<and> oz < z + th \<and> z < oz + oh"
  by (auto simp: blocks_def Let_def)

text \<open>
  C1. In scenario S3 the retrieval of \<open>X\<close> succeeds with a plan of one step, the retrieval
  of \<open>X\<close> itself: \<open>Y\<close>, which stands between \<open>X\<close> and the face \<open>y = 0\<close>, is not moved aside,
  since its \<open>y\<close> is smaller than the target's.
\<close>

theorem s3_plan_is_single_retrieve:
  "map_sum id (\<lambda>(success, steps, items', containers'). (success, steps))
     (retrieve_item spec_space3d (enum_by [(''Y'', ''temporary_storage'')]) ''X'' ''user''
        s3_items s3_containers)
   = Inr (True, [\<lparr>step = 1, action = ''retrieve'', step_itemId = ''X'',
                  fromContainer = Some ''C'', toContainer = None, step_position = None\<rparr>])"
  by code_simp

lemma half_open_overlap:
  fixes a b w v :: rat
  assumes "0 < w" "0 < v"
  shows "{a..<a + w} \<inter> {b..<b + v} \<noteq> {} \<longleftrightarrow> a < b + v \<and> b < a + w"
proof
  assume "{a..<a + w} \<inter> {b..<b + v} \<noteq> {}"
  then obtain t where "t \<in> {a..<a + w} \<inter> {b..<b + v}"
    by blast
  then have "a \<le> t" "t < a + w" "b \<le> t" "t < b + v"
    by auto
  then show "a < b + v \<and> b < a + w"
    by linarith
next
  assume "a < b + v \<and> b < a + w"
  with assms have "max a b \<in> {a..<a + w} \<inter> {b..<b + v}"
    by (auto simp: max_def)
  then show "{a..<a + w} \<inter> {b..<b + v} \<noteq> {}"
    by blast
qed

lemma container_items_of_iff:
  "(k, it, p, r) \<in> set (container_items_of target cont items) \<longleftrightarrow>
     (k, it) \<in> set items \<and> k \<noteq> itemId target \<and>
     (\<exists>l. currentLocation it = Some l \<and> loc_containerId l = Some (containerId cont) \<and>
          p = get_position l \<and> r = get_rotation it l)"
proof (induction items)
  case Nil
  then show ?case by (simp add: container_items_of_def)
next
  case (Cons e items)
  obtain k' it' where e: "e = (k', it')"
    by (cases e)
  have "container_items_of target cont (e # items)
        = (if k' = itemId target then []
           else (case currentLocation it' of
                   None \<Rightarrow> []
                 | Some l \<Rightarrow>
                     if loc_containerId l \<noteq> Some (containerId cont) then []
                     else [(k', it', get_position l, get_rotation it' l)]))
          @ container_items_of target cont items"
    by (simp add: container_items_of_def e)
  then show ?case
    using Cons.IH by (auto simp: e split: option.splits)
qed

lemma blocked_by_ids:
  "b_itemId ` set (snd (calculate_retrieval_complexity sp target cont position rotation items))
   = {k. \<exists>it p r. (k, it, p, r) \<in> set (container_items_of target cont items) \<and>
                  blocks position rotation p r}"
  by (force simp: calculate_retrieval_complexity_def Let_def split: if_splits)

text \<open>
  C2. For every other item located in the target's container, with positive extents
  along x and z on both boxes, the item is among the reported blockers exactly when its
  minimum \<open>y\<close> is at least the target's and its half-open x- and z-intervals meet the
  target's.
\<close>

theorem blocker_iff:
  assumes "distinct (map fst items)"
    and "(other_id, other) \<in> set items"
    and "other_id \<noteq> itemId target_item"
    and "currentLocation other = Some l"
    and "loc_containerId l = Some (containerId cont)"
    and "get_position l = (ox, oy, oz)"
    and "get_rotation other l = (ow, od, oh)"
    and "0 < tw" "0 < th" "0 < ow" "0 < oh"
  shows "other_id \<in> b_itemId ` set (snd (calculate_retrieval_complexity sp target_item cont
                                          (x, y, z) (tw, td, th) items))
         \<longleftrightarrow> y \<le> oy \<and> {ox..<ox + ow} \<inter> {x..<x + tw} \<noteq> {}
                    \<and> {oz..<oz + oh} \<inter> {z..<z + th} \<noteq> {}"
proof -
  let ?bs = "snd (calculate_retrieval_complexity sp target_item cont (x, y, z) (tw, td, th) items)"
  have only: "it = other" if "(other_id, it) \<in> set items" for it
    using that assms(1,2) by (meson eq_key_imp_eq_value)
  have "other_id \<in> b_itemId ` set ?bs
        \<longleftrightarrow> blocks (x, y, z) (tw, td, th) (ox, oy, oz) (ow, od, oh)"
  proof
    assume "other_id \<in> b_itemId ` set ?bs"
    then obtain it p r where
      mem: "(other_id, it, p, r) \<in> set (container_items_of target_item cont items)"
      and b: "blocks (x, y, z) (tw, td, th) p r"
      unfolding blocked_by_ids by blast
    from mem obtain l' where
      "(other_id, it) \<in> set items" "currentLocation it = Some l'"
      "p = get_position l'" "r = get_rotation it l'"
      unfolding container_items_of_iff by blast
    with only assms(4,6,7) have "p = (ox, oy, oz)" "r = (ow, od, oh)"
      by auto
    with b show "blocks (x, y, z) (tw, td, th) (ox, oy, oz) (ow, od, oh)"
      by simp
  next
    assume b: "blocks (x, y, z) (tw, td, th) (ox, oy, oz) (ow, od, oh)"
    have "(other_id, other, (ox, oy, oz), (ow, od, oh))
          \<in> set (container_items_of target_item cont items)"
      unfolding container_items_of_iff using assms(2-7) by simp
    with b show "other_id \<in> b_itemId ` set ?bs"
      unfolding blocked_by_ids by blast
  qed
  then show ?thesis
    using assms(8-11) by (auto simp: blocks_iff half_open_overlap)
qed

theorem blocker_iff_witness:
  "''A'' \<in> b_itemId ` set (snd (calculate_retrieval_complexity spec_space3d
       (mk_item ''T'' (20, 20, 20) (at_loc ''C'' (0, 0, 0) (20, 20, 20)))
       (mk_container ''C'' (100, 100, 100) 24000 [''T'', ''A'', ''B''])
       (0, 0, 0) (20, 20, 20) row_items))"
proof -
  let ?A = "mk_item ''A'' (20, 20, 20) (at_loc ''C'' (0, 20, 0) (20, 20, 20))"
  let ?l = "\<lparr>loc_containerId = Some ''C'', loc_position = Some (0, 20, 0),
             loc_rotation = Some (20, 20, 20)\<rparr>"
  have "distinct (map fst row_items)" "(''A'', ?A) \<in> set row_items"
    by (simp_all add: row_items_def)
  moreover have "''A'' \<noteq> itemId (mk_item ''T'' (20, 20, 20) (at_loc ''C'' (0, 0, 0) (20, 20, 20)))"
    by (simp add: mk_item_def)
  moreover have "currentLocation ?A = Some ?l"
    by (simp add: mk_item_def at_loc_def)
  moreover have "loc_containerId ?l
                 = Some (containerId (mk_container ''C'' (100, 100, 100) 24000 [''T'', ''A'', ''B'']))"
    by (simp add: mk_container_def)
  moreover have "get_position ?l = (0, 20, 0)" "get_rotation ?A ?l = (20, 20, 20)"
    by (simp_all add: get_position_def get_rotation_def)
  moreover have "(0::rat) \<le> 20 \<and> {0..<0 + 20} \<inter> {0..<0 + (20::rat)} \<noteq> {}"
    by simp
  ultimately show ?thesis
    using blocker_iff [of row_items "''A''" ?A
        "mk_item ''T'' (20, 20, 20) (at_loc ''C'' (0, 0, 0) (20, 20, 20))" ?l
        "mk_container ''C'' (100, 100, 100) 24000 [''T'', ''A'', ''B'']"
        0 20 0 20 20 20 20 20 spec_space3d 0 0 0 20]
    by simp
qed

text \<open>
  C9. When the requested id is not in the item store, or its item has no current location,
  \<open>retrieve_item\<close> returns \<open>False\<close> with an empty step list and leaves the items and the
  containers as they were.
\<close>

theorem retrieve_item_not_found:
  assumes "map_of items item_id = None \<or>
           (\<exists>it. map_of items item_id = Some it \<and> currentLocation it = None)"
  shows "retrieve_item sp set_iter item_id user_id items containers
         = Inr (False, [], items, containers)"
  using assms by (auto simp: retrieve_item_def)

theorem retrieve_item_not_found_witness:
  "retrieve_item spec_space3d (enum_by []) ''Q'' ''user'' s3_items s3_containers
     = Inr (False, [], s3_items, s3_containers) \<and>
   retrieve_item spec_space3d (enum_by []) ''B'' ''user'' tight_items tight_containers
     = Inr (False, [], tight_items, tight_containers)"
proof -
  have absent: "map_of s3_items ''Q'' = None"
    by (simp add: s3_items_def)
  have unlocated: "\<exists>it. map_of tight_items ''B'' = Some it \<and> currentLocation it = None"
    by (simp add: tight_items_def mk_item_def)
  show ?thesis
    using retrieve_item_not_found [of s3_items "''Q''" spec_space3d "enum_by []" "''user''"
            s3_containers]
          retrieve_item_not_found [of tight_items "''B''" spec_space3d "enum_by []" "''user''"
            tight_containers]
          absent unlocated
    by blast
qed

text \<open>
  C5. With the two blockers \<open>B\<close> and \<open>A\<close> moved aside in this order and the set
  \<open>moved_to_temp\<close> enumerated as \<open>A, B\<close>, the plan moves them back as \<open>B, A\<close>: in the order
  of the moves aside, not in the reverse order.
\<close>

theorem row_plan_moves_back_in_same_order:
  "map_sum id (map (\<lambda>s. (step s, action s, step_itemId s)))
     (generate_optimized_retrieval_steps spec_space3d
        (enum_by [(''A'', ''temporary_storage''), (''B'', ''temporary_storage'')])
        (mk_item ''T'' (20, 20, 20) (at_loc ''C'' (0, 0, 0) (20, 20, 20)))
        (mk_container ''C'' (100, 100, 100) 24000 [''T'', ''A'', ''B''])
        (0, 0, 0) (20, 20, 20) row_items row_containers)
   = Inr [(1, ''move'', ''B''), (2, ''move'', ''A''), (3, ''retrieve'', ''T''),
          (4, ''move'', ''B''), (5, ''move'', ''A'')]"
  by code_simp

section \<open>Step ordinals\<close>

lemma numbered_init: "numbered [] 1"
  by (simp add: numbered_def)

lemma numbered_snoc: "numbered ns c \<Longrightarrow> numbered (ns @ [c]) (c + 1)"
  by (simp add: numbered_def upto_rec2)

lemma numbered_length: "numbered ns c \<Longrightarrow> ns = [1..int (length ns)]"
  by (simp add: numbered_def)

lemma move_blockers_numbered:
  "numbered (map step steps) c \<Longrightarrow>
   move_blockers items cont bs av steps c moved = Inr (steps', c', moved') \<Longrightarrow>
   numbered (map step steps') c'"
proof (induction bs arbitrary: av steps c moved)
  case Nil
  then show ?case by simp
next
  case (Cons b bs)
  from Cons.prems(2) obtain blocking_item where
    it: "map_of items (b_itemId b) = Some blocking_item"
    by (auto split: option.splits)
  obtain best av' where ch: "choose_temp (zone cont) (get_volume blocking_item) av = (best, av')"
    by (cases "choose_temp (zone cont) (get_volume blocking_item) av")
  show ?case
    using Cons.prems(2) it ch
    by (auto intro!: Cons.IH [where c = "c + 1"] numbered_snoc [OF Cons.prems(1), simplified] simp: numbered_snoc [OF Cons.prems(1), simplified])
qed

lemma move_back_numbered:
  "numbered (map step steps) c \<Longrightarrow>
   \<exists>c'. numbered (map step (move_back cont ps steps c)) c'"
proof (induction ps arbitrary: steps c)
  case Nil
  then show ?case by auto
next
  case (Cons p ps)
  obtain blocking_id temp_container where p: "p = (blocking_id, temp_container)"
    by (cases p)
  show ?case
    using Cons.IH [of "steps @ [\<lparr>step = c, action = ''move'', step_itemId = blocking_id,
                  fromContainer = Some temp_container,
                  toContainer = Some (containerId cont),
                  step_position = None\<rparr>]" "c + 1"] numbered_snoc [OF Cons.prems]
    by (simp add: p)
qed

lemma move_blockers_total:
  "b_itemId ` set bs \<subseteq> fst ` set items \<Longrightarrow>
   \<exists>r. move_blockers items cont bs av steps c moved = Inr r"
proof (induction bs arbitrary: av steps c moved)
  case Nil
  then show ?case by simp
next
  case (Cons b bs)
  from Cons.prems obtain blocking_item where
    it: "map_of items (b_itemId b) = Some blocking_item"
    by (metis (no_types, opaque_lifting) image_subset_iff list.set_intros(1) map_of_eq_None_iff not_Some_eq)
  obtain best av' where ch: "choose_temp (zone cont) (get_volume blocking_item) av = (best, av')"
    by (cases "choose_temp (zone cont) (get_volume blocking_item) av")
  show ?case
    using Cons.IH Cons.prems it ch by simp
qed

lemma container_items_of_keys:
  "(k, it, p, r) \<in> set (container_items_of target cont items) \<Longrightarrow> (k, it) \<in> set items"
  by (auto simp: container_items_of_def split: if_splits option.splits)

lemma blocked_by_keys:
  "b_itemId ` set (snd (calculate_retrieval_complexity sp target cont position rotation items))
     \<subseteq> fst ` set items"
  by (force simp: calculate_retrieval_complexity_def Let_def split: if_splits dest: container_items_of_keys)

lemma retrieval_steps_numbered:
  "\<exists>steps. generate_optimized_retrieval_steps sp set_iter target cont position rotation items containers = Inr steps
      \<and> map step steps = [1..int (length steps)]"
proof -
  let ?bs = "snd (calculate_retrieval_complexity sp target cont position rotation items)"
  obtain steps c moved where
    mb: "move_blockers items cont ?bs (available_containers_of cont containers) [] 1 {} = Inr (steps, c, moved)"
    using move_blockers_total [OF blocked_by_keys] by (metis prod_cases3)
  have n1: "numbered (map step steps) c"
    using move_blockers_numbered [OF _ mb] numbered_init by simp
  let ?steps1 = "steps @ [\<lparr>step = c, action = ''retrieve'',
                               step_itemId = itemId target,
                               fromContainer = Some (containerId cont),
                               toContainer = None, step_position = None\<rparr>]"
  have n2: "numbered (map step ?steps1) (c + 1)"
    using numbered_snoc [OF n1] by simp
  obtain c' where "numbered (map step (move_back cont (rev (set_iter moved)) ?steps1 (c + 1))) c'"
    using move_back_numbered [OF n2] by blast
  then have "map step (move_back cont (rev (set_iter moved)) ?steps1 (c + 1))
      = [1..int (length (move_back cont (rev (set_iter moved)) ?steps1 (c + 1)))]"
    using numbered_length by fastforce
  then show ?thesis
    using mb by (simp add: generate_optimized_retrieval_steps_def Let_def)
qed

lemma numbered_snoc2: "numbered ns c \<Longrightarrow> numbered (ns @ [c, c + 1]) (c + 2)"
  using numbered_snoc [OF numbered_snoc, of ns c] by (simp add: add.commute)

lemma numbered_app1:
  "numbered (map f steps) c \<Longrightarrow> f s = c \<Longrightarrow> numbered (map f (steps @ [s])) (c + 1)"
  using numbered_snoc [of "map f steps" c] by simp

lemma move_candidates_numbered:
  "numbered (map step steps) c \<Longrightarrow>
   move_candidates z tv cs cands mv steps c = (steps', c', mv') \<Longrightarrow>
   numbered (map step steps') c'"
proof (induction cands arbitrary: mv steps c)
  case Nil
  then show ?case by simp
next
  case (Cons cand cands)
  obtain it c0 vd where cand: "cand = (it, c0, vd)"
    by (cases cand)
  show ?case
  proof (cases "mv \<ge> tv")
    case True
    with Cons.prems cand show ?thesis by simp
  next
    case False
    with Cons.prems(2) cand show ?thesis
      using numbered_snoc [OF Cons.prems(1)]
      by (auto intro!: Cons.IH [where c = "c + 1"])
  qed
qed

lemma rearrange_targets_numbered:
  "numbered (map step steps) c \<Longrightarrow>
   \<exists>c'. numbered (map step (rearrange_targets ts all_items cs steps c)) c'"
proof (induction ts arbitrary: steps c)
  case Nil
  then show ?case by auto
next
  case (Cons t ts)
  let ?cands = "sort_key (\<lambda>(it, c, vd). vd) (low_priority_candidates t all_items cs)"
  obtain steps' c' mv' where
    mc: "move_candidates (preferredZone t) (get_volume t) cs ?cands 0 steps c = (steps', c', mv')"
    by (metis prod_cases3)
  have n: "numbered (map step steps') c'"
    using move_candidates_numbered [OF Cons.prems mc] .
  show ?case
  proof (cases "if mv' \<ge> get_volume t
                then filter (\<lambda>(c_id, c). zone c = preferredZone t) cs else []")
    case Nil
    then show ?thesis
      using mc Cons.IH [OF n] by (simp add: Let_def)
  next
    case (Cons p ps)
    obtain c_id c0 where p: "p = (c_id, c0)"
      by (cases p)
    let ?s = "\<lparr>step = c', action = ''place'', step_itemId = itemId t, fromContainer = None,
               toContainer = Some (containerId c0), step_position = None\<rparr>"
    have "numbered (map step (steps' @ [?s])) (c' + 1)"
      by (rule numbered_app1 [OF n]) simp
    from Cons.IH [OF this] show ?thesis
      using mc Cons p by (simp add: Let_def)
  qed
qed

lemma rearrangement_plan_numbered:
  "map step (generate_rearrangement_plan unplaced all_items cs)
   = [1..int (length (generate_rearrangement_plan unplaced all_items cs))]"
proof -
  have "numbered (map step []) 1"
    using numbered_init by simp
  from rearrange_targets_numbered [OF this]
  obtain c' where "numbered (map step (generate_rearrangement_plan unplaced all_items cs)) c'"
    unfolding generate_rearrangement_plan_def by blast
  then show ?thesis
    using numbered_length by fastforce
qed

lemma emit_remove_place_numbered:
  "numbered (map w_step steps) c \<Longrightarrow>
   emit_remove_place cid u ws steps c = (steps', c') \<Longrightarrow>
   numbered (map w_step steps') c'"
proof (induction ws arbitrary: steps c)
  case Nil
  then show ?case by simp
next
  case (Cons w ws)
  show ?case
    using Cons.prems(2) numbered_snoc2 [OF Cons.prems(1)]
    by (auto intro!: Cons.IH [where c = "c + 2"])
qed

lemma emit_selected_groups_numbered:
  "numbered (map w_step steps) c \<Longrightarrow>
   emit_selected_groups u sel groups steps c = (steps', c') \<Longrightarrow>
   numbered (map w_step steps') c'"
proof (induction groups arbitrary: steps c)
  case Nil
  then show ?case by simp
next
  case (Cons g groups)
  obtain cid ws where g: "g = (cid, ws)"
    by (cases g)
  let ?sel = "filter (\<lambda>w. wi_itemId w \<in> sel) ws"
  show ?case
  proof (cases "?sel = []")
    case True
    with Cons.prems g show ?thesis
      by (auto intro: Cons.IH)
  next
    case False
    obtain steps1 c1 where
      e: "emit_remove_place cid u (sort_by_access ?sel) steps c = (steps1, c1)"
      by (cases "emit_remove_place cid u (sort_by_access ?sel) steps c")
    have "numbered (map w_step steps1) c1"
      using emit_remove_place_numbered [OF Cons.prems(1) e] .
    with Cons.prems(2) g False e show ?thesis
      by (auto intro: Cons.IH simp: Let_def)
  qed
qed

lemma emit_selected_loose_numbered:
  "numbered (map w_step steps) c \<Longrightarrow>
   emit_selected_loose u item_map ids steps c = (steps', c') \<Longrightarrow>
   numbered (map w_step steps') c'"
proof (induction ids arbitrary: steps c)
  case Nil
  then show ?case by simp
next
  case (Cons i ids)
  show ?case
  proof (cases "item_map i")
    case None
    with Cons.prems show ?thesis
      by (auto intro: Cons.IH)
  next
    case (Some w)
    let ?s = "\<lparr>w_step = c, w_action = ''place'', w_itemId = wi_itemId w,
               w_fromContainer = None, w_toContainer = Some u\<rparr>"
    have n: "numbered (map w_step (steps @ [?s])) (c + 1)"
      by (rule numbered_app1 [OF Cons.prems(1)]) simp
    show ?thesis
    proof (cases "has_containerId w")
      case True
      with Cons.prems Some show ?thesis
        by (auto intro: Cons.IH)
    next
      case False
      with Cons.prems(2) Some
      have "emit_selected_loose u item_map ids (steps @ [?s]) (c + 1) = (steps', c')"
        by simp
      from Cons.IH [OF n this] show ?thesis .
    qed
  qed
qed

lemma waste_return_plan_numbered:
  assumes "generate_waste_return_plan set_iter waste_items max_weight u = Inr steps"
  shows "map w_step steps = [1..int (length steps)]"
proof (cases "waste_items = []")
  case True
  with assms show ?thesis
    by (simp add: generate_waste_return_plan_def)
next
  case False
  from assms False obtain sel where
    sel: "knapsack_select waste_items max_weight = Inr sel"
    by (auto simp: generate_waste_return_plan_def split: sum.splits)
  obtain steps1 c1 where
    g: "emit_selected_groups u sel (group_by_container waste_items []) [] 1 = (steps1, c1)"
    by (cases "emit_selected_groups u sel (group_by_container waste_items []) [] 1")
  have n1: "numbered (map w_step steps1) c1"
    using emit_selected_groups_numbered [OF _ g] numbered_init by simp
  let ?m = "map_of (rev (map (\<lambda>w. (wi_itemId w, w)) waste_items))"
  obtain steps2 c2 where
    l: "emit_selected_loose u ?m (set_iter sel) steps1 c1 = (steps2, c2)"
    by (cases "emit_selected_loose u ?m (set_iter sel) steps1 c1")
  have "numbered (map w_step steps2) c2"
    using emit_selected_loose_numbered [OF n1 l] .
  moreover have "steps = steps2"
    using assms False sel g l by (simp add: generate_waste_return_plan_def Let_def)
  ultimately show ?thesis
    using numbered_length by fastforce
qed

text \<open>The knapsack never misses a key of \<open>item_values\<close>.\<close>

lemma item_values_fold_keys:
  "fst ` set (fold (\<lambda>(i, w) acc. AList.update (wi_itemId w) (f i w) acc) xs acc0)
   = wi_itemId ` snd ` set xs \<union> fst ` set acc0"
  by (induction xs arbitrary: acc0) (auto simp: dom_update split: prod.splits)

lemma item_values_of_keys:
  "fst ` set (item_values_of waste_items) = wi_itemId ` set waste_items"
proof -
  have "snd ` set (enumerate 0 waste_items) = set waste_items"
    by (metis list.set_map map_snd_enumerate)
  then show ?thesis
    unfolding item_values_of_def item_values_fold_keys by simp
qed

lemma knapsack_inner_total:
  "wi_itemId it \<in> fst ` set item_values \<Longrightarrow>
   \<exists>r. knapsack_inner item_values it m ws dp sel = Inr r"
proof (induction ws arbitrary: dp sel)
  case Nil
  then show ?case by simp
next
  case (Cons w ws)
  from Cons.prems obtain v where "map_of item_values (wi_itemId it) = Some v"
    by (metis map_of_eq_None_iff not_Some_eq)
  then show ?case
    using Cons.IH [OF Cons.prems] by (simp add: Let_def)
qed

lemma knapsack_fill_total:
  "wi_itemId ` set its \<subseteq> fst ` set item_values \<Longrightarrow>
   \<exists>r. knapsack_fill item_values n its dp sel = Inr r"
proof (induction its arbitrary: dp sel)
  case Nil
  then show ?case by simp
next
  case (Cons it its)
  have rest: "wi_itemId ` set its \<subseteq> fst ` set item_values"
    using Cons.prems by auto
  show ?case
  proof (cases "py_int (wi_mass it * 100) \<le> 0")
    case True
    then show ?thesis
      using Cons.IH [OF rest] by simp
  next
    case False
    obtain dp' sel' where
      "knapsack_inner item_values it (nat (py_int (wi_mass it * 100)))
         (rev [nat (py_int (wi_mass it * 100))..<Suc n]) dp sel = Inr (dp', sel')"
      using knapsack_inner_total [of it item_values] Cons.prems by fastforce
    then show ?thesis
      using False Cons.IH [OF rest] by (simp add: Let_def)
  qed
qed

lemma waste_return_plan_total:
  assumes "0 \<le> py_int (max_weight * 100)"
  shows "\<exists>steps. generate_waste_return_plan set_iter waste_items max_weight u = Inr steps"
proof -
  obtain dp sel where
    "knapsack_fill (item_values_of waste_items) (nat (py_int (max_weight * 100))) waste_items
       (replicate (nat (py_int (max_weight * 100)) + 1) 0)
       (replicate (nat (py_int (max_weight * 100)) + 1) {}) = Inr (dp, sel)"
    using knapsack_fill_total [of waste_items "item_values_of waste_items"]
    by (metis item_values_of_keys order_refl surj_pair)
  then have "\<exists>s. knapsack_select waste_items max_weight = Inr s"
    using assms by (simp add: knapsack_select_def Let_def)
  then show ?thesis
    by (auto simp: generate_waste_return_plan_def Let_def split: prod.splits)
qed

text \<open>
  C7. The step ordinals of a rearrangement plan, of a retrieval plan and of a waste-return
  plan are \<open>1, 2, ..., n\<close> in list order, \<open>n\<close> being the number of steps. The retrieval
  planner always returns a plan; the waste-return planner returns one whenever the scaled
  capacity is not negative.
\<close>

theorem plan_steps_contiguous:
  "map step (generate_rearrangement_plan unplaced_items all_items containers)
     = [1..int (length (generate_rearrangement_plan unplaced_items all_items containers))] \<and>
   (\<exists>steps. generate_optimized_retrieval_steps sp set_iter target_item cont position rotation
              items containers = Inr steps \<and>
            map step steps = [1..int (length steps)]) \<and>
   (\<forall>steps. generate_waste_return_plan iter_ids waste_items max_weight undock = Inr steps \<longrightarrow>
            map w_step steps = [1..int (length steps)]) \<and>
   (0 \<le> py_int (max_weight * 100) \<longrightarrow>
      (\<exists>steps. generate_waste_return_plan iter_ids waste_items max_weight undock = Inr steps))"
proof (intro conjI allI impI)
  show "map step (generate_rearrangement_plan unplaced_items all_items containers)
        = [1..int (length (generate_rearrangement_plan unplaced_items all_items containers))]"
    by (rule rearrangement_plan_numbered)
  show "\<exists>steps. generate_optimized_retrieval_steps sp set_iter target_item cont position
                  rotation items containers = Inr steps \<and>
                map step steps = [1..int (length steps)]"
    by (rule retrieval_steps_numbered)
  show "map w_step steps = [1..int (length steps)]"
    if "generate_waste_return_plan iter_ids waste_items max_weight undock = Inr steps"
    for steps
    using that by (rule waste_return_plan_numbered)
  show "\<exists>steps. generate_waste_return_plan iter_ids waste_items max_weight undock = Inr steps"
    if "0 \<le> py_int (max_weight * 100)"
    using that by (rule waste_return_plan_total)
qed

theorem plan_steps_contiguous_witness:
  "\<exists>steps. generate_waste_return_plan (enum_by [''W1'', ''W2'']) light_waste (1 / 2) ''UD''
             = Inr steps \<and>
           map w_step steps = [1..int (length steps)]"
proof -
  have capacity: "0 \<le> py_int ((1 / 2) * 100)"
    by (simp add: py_int_def)
  show ?thesis
    using plan_steps_contiguous [where iter_ids = "enum_by [''W1'', ''W2'']"
            and waste_items = light_waste and max_weight = "1 / 2" and undock = "''UD''"]
          capacity
    by blast
qed

section \<open>Waste\<close>

text \<open>
  C3. An item that is not marked waste, has \<open>usageLimit = 0\<close> and a parseable expiry date
  19 days ahead is not classified: the waste list is empty and the flag stays \<open>False\<close>.
\<close>

theorem spent_item_with_late_expiry_not_waste:
  "identify_waste_items spent_dates (\<lambda>s. None) [(''Z'', spent_item)] [] 0
   = (([], 0, []), [(''Z'', spent_item)]) \<and> \<not> isWaste spent_item \<and> usageLimit spent_item = 0"
  by code_simp

text \<open>
  C6. With a weight limit of 0.5 kg the optimizer selects both waste items of 0.255 kg:
  each weighs 25 in the integer table, the capacity is 50, and the selected mass is
  0.51 kg.
\<close>

theorem light_waste_exceeds_limit:
  "knapsack_select light_waste (1 / 2) = Inr {''W1'', ''W2''} \<and>
   sum_list (map wi_mass light_waste) = 51 / 100 \<and>
   map_sum id (map (\<lambda>s. (w_step s, w_action s, w_itemId s)))
     (generate_waste_return_plan (enum_by [''W1'', ''W2'']) light_waste (1 / 2) ''UD'')
   = Inr [(1, ''remove'', ''W1''), (2, ''place'', ''W1''),
          (3, ''remove'', ''W2''), (4, ''place'', ''W2'')]"
  by code_simp

section \<open>Simulation\<close>

text \<open>
  C4. In scenario S5 the route stores \<open>U\<close> with \<open>usageLimit = 0\<close> and \<open>isWaste = False\<close>, and
  reports no usage-depleted item.
\<close>

theorem s5_item_not_marked_waste:
  "app_simulate_days (\<lambda>s. None) 0 None [''U''] [s5_item] 0
   = \<lparr>sim_items_list = [s5_item\<lparr>usageLimit := 0\<rparr>], sim_current_date = 0, oldDate = 0,
      newDate = 0, expiringItems = [], usageDepletedItems = []\<rparr> \<and>
   \<not> isWaste (s5_item\<lparr>usageLimit := 0\<rparr>)"
  by code_simp

section \<open>Placement\<close>

lemma place_one_cases:
  assumes "place_one sp key it st = Inr st'"
  shows "st' = st \<or>
         (\<not> has_container it \<and>
          (\<exists>l p. ps_items st' = AList.update key (it\<lparr>currentLocation := Some l\<rparr>) (ps_items st) \<and>
                 loc_containerId l \<noteq> None \<and>
                 ps_placements st' = ps_placements st @ [p] \<and> p_itemId p = itemId it))"
  using assms
  by (auto simp: place_one_def Let_def has_container_def
           split: if_splits sum.splits option.splits prod.splits)

lemma place_all_placements:
  "place_all sp es st = Inr st' \<Longrightarrow>
   set (ps_placements st') \<subseteq>
     set (ps_placements st) \<union> {p. \<exists>(k, it) \<in> set es. \<not> has_container it \<and> p_itemId p = itemId it}"
proof (induction es arbitrary: st)
  case Nil
  then show ?case by simp
next
  case (Cons e es)
  obtain key it where e: "e = (key, it)"
    by (cases e)
  from Cons.prems e obtain st1 where
    one: "place_one sp key it st = Inr st1" and rest: "place_all sp es st1 = Inr st'"
    by (auto split: sum.splits)
  from place_one_cases [OF one]
  have "set (ps_placements st1) \<subseteq>
          set (ps_placements st) \<union> {p. \<not> has_container it \<and> p_itemId p = itemId it}"
    by auto
  with Cons.IH [OF rest] show ?case
    unfolding e by auto
qed

lemma place_one_frame:
  assumes "place_one sp key it st = Inr st'" and "map_of (ps_items st) key = Some it"
    and "map_of (ps_items st) k = Some x"
  shows "\<exists>x'. map_of (ps_items st') k = Some x' \<and> isWaste x' = isWaste x \<and>
              itemId x' = itemId x \<and> (has_container x \<longrightarrow> has_container x') \<and>
              (k \<noteq> key \<longrightarrow> x' = x)"
  using place_one_cases [OF assms(1)] assms(2,3)
  by (auto simp: update_conv' has_container_def)

lemma place_one_keys:
  assumes "place_one sp key it st = Inr st'" and "map_of (ps_items st) key = Some it"
  shows "map fst (ps_items st') = map fst (ps_items st)"
proof -
  have "key \<in> set (map fst (ps_items st))"
    using assms(2) by (metis map_of_eq_None_iff option.distinct(1) set_map)
  then have "map fst (AList.update key v (ps_items st)) = map fst (ps_items st)" for v
    by (simp add: update_keys)
  then show ?thesis
    using place_one_cases [OF assms(1)] by auto
qed

lemma place_one_entries_current:
  assumes "place_one sp key it st = Inr st1"
    and "entries_current ((key, it) # es) (ps_items st)"
  shows "entries_current es (ps_items st1)"
  unfolding entries_current_def
proof (intro conjI ballI)
  have cur: "map_of (ps_items st) key = Some it"
    using assms(2) by (simp add: entries_current_def)
  show "distinct (map fst es)"
    using assms(2) by (simp add: entries_current_def)
  fix p assume p: "p \<in> set es"
  obtain k' it' where p': "p = (k', it')"
    by (cases p)
  have "k' \<noteq> key" "map_of (ps_items st) k' = Some it'"
    using assms(2) p p' by (auto simp: entries_current_def rev_image_eqI)
  with place_one_frame [OF assms(1) cur, of k' it']
  show "case p of (k, it) \<Rightarrow> map_of (ps_items st1) k = Some it"
    by (simp add: p')
qed

lemma place_all_frame:
  assumes "place_all sp es st = Inr st'" and "entries_current es (ps_items st)"
    and "map_of (ps_items st) k = Some x"
  shows "\<exists>x'. map_of (ps_items st') k = Some x' \<and> isWaste x' = isWaste x \<and>
              itemId x' = itemId x \<and> (has_container x \<longrightarrow> has_container x')"
  using assms
proof (induction es arbitrary: st x)
  case Nil
  then show ?case by simp
next
  case (Cons e es)
  obtain key it where e: "e = (key, it)"
    by (cases e)
  from Cons.prems(1) e obtain st1 where
    one: "place_one sp key it st = Inr st1" and rest: "place_all sp es st1 = Inr st'"
    by (auto split: sum.splits)
  have cur: "map_of (ps_items st) key = Some it"
    using Cons.prems(2) e by (simp add: entries_current_def)
  from place_one_frame [OF one cur Cons.prems(3)] obtain x1 where
    x1: "map_of (ps_items st1) k = Some x1" "isWaste x1 = isWaste x" "itemId x1 = itemId x"
        "has_container x \<longrightarrow> has_container x1"
    by blast
  have "entries_current es (ps_items st1)"
    using place_one_entries_current [OF one] Cons.prems(2) e by simp
  from Cons.IH [OF rest this x1(1)] x1 show ?case
    by auto
qed

lemma place_all_placed_located:
  assumes "place_all sp es st = Inr st'" and "entries_current es (ps_items st)"
    and "p \<in> set (ps_placements st')" and "p \<notin> set (ps_placements st)"
  shows "\<exists>k x. map_of (ps_items st') k = Some x \<and> itemId x = p_itemId p \<and> has_container x"
  using assms
proof (induction es arbitrary: st)
  case Nil
  then show ?case by simp
next
  case (Cons e es)
  obtain key it where e: "e = (key, it)"
    by (cases e)
  from Cons.prems(1) e obtain st1 where
    one: "place_one sp key it st = Inr st1" and rest: "place_all sp es st1 = Inr st'"
    by (auto split: sum.splits)
  have cur: "map_of (ps_items st) key = Some it"
    using Cons.prems(2) e by (simp add: entries_current_def)
  have ec: "entries_current es (ps_items st1)"
    using place_one_entries_current [OF one] Cons.prems(2) e by simp
  show ?case
  proof (cases "p \<in> set (ps_placements st1)")
    case False
    from Cons.IH [OF rest ec Cons.prems(3) False] show ?thesis .
  next
    case True
    with place_one_cases [OF one] Cons.prems(4) obtain l where
      "ps_items st1 = AList.update key (it\<lparr>currentLocation := Some l\<rparr>) (ps_items st)"
      "loc_containerId l \<noteq> None" "p_itemId p = itemId it"
      by auto
    then have "map_of (ps_items st1) key = Some (it\<lparr>currentLocation := Some l\<rparr>)"
      "has_container (it\<lparr>currentLocation := Some l\<rparr>)"
      "itemId (it\<lparr>currentLocation := Some l\<rparr>) = p_itemId p"
      by (auto simp: update_conv' has_container_def)
    with place_all_frame [OF rest ec, of key "it\<lparr>currentLocation := Some l\<rparr>"]
    show ?thesis
      by auto
  qed
qed

lemma place_all_keys:
  assumes "place_all sp es st = Inr st'" and "entries_current es (ps_items st)"
  shows "map fst (ps_items st') = map fst (ps_items st)"
  using assms
proof (induction es arbitrary: st)
  case Nil
  then show ?case by simp
next
  case (Cons e es)
  obtain key it where e: "e = (key, it)"
    by (cases e)
  from Cons.prems(1) e obtain st1 where
    one: "place_one sp key it st = Inr st1" and rest: "place_all sp es st1 = Inr st'"
    by (auto split: sum.splits)
  have cur: "map_of (ps_items st) key = Some it"
    using Cons.prems(2) e by (simp add: entries_current_def)
  have ec: "entries_current es (ps_items st1)"
    using place_one_entries_current [OF one] Cons.prems(2) e by simp
  from Cons.IH [OF rest ec] place_one_keys [OF one cur] show ?case
    by simp
qed

lemma sort_items_current:
  assumes "distinct (map fst items)"
  shows "entries_current (sort_items f now items) items"
proof -
  have "distinct (map fst (sort_items f now items))"
    using assms by (simp add: sort_items_def distinct_map)
  then show ?thesis
    using assms by (auto simp: entries_current_def sort_items_def)
qed

lemma calculate_placement_run:
  assumes "calculate_placement sp f now items containers = Inr (response, items', containers')"
  obtains st where
    "place_all sp (sort_items f now items)
       \<lparr>ps_items = items, ps_containers = containers,
        ps_spaces = fold (\<lambda>(container_id, c) acc.
              AList.update container_id
                (new_space sp (cont_width c) (cont_depth c) (cont_height c)) acc)
              containers [],
        ps_placements = [], ps_placed = {}\<rparr> = Inr st"
    "items' = ps_items st" "placements response = ps_placements st"
  using assms by (auto simp: calculate_placement_def Let_def split: sum.splits)

lemma placements_unlocated:
  assumes "calculate_placement sp f now items containers = Inr (response, items', containers')"
    and "p \<in> set (placements response)"
  shows "\<exists>(k, it) \<in> set items. \<not> has_container it \<and> p_itemId p = itemId it"
proof -
  from assms(1) obtain st where
    pa: "place_all sp (sort_items f now items)
       \<lparr>ps_items = items, ps_containers = containers,
        ps_spaces = fold (\<lambda>(container_id, c) acc.
              AList.update container_id
                (new_space sp (cont_width c) (cont_depth c) (cont_height c)) acc)
              containers [],
        ps_placements = [], ps_placed = {}\<rparr> = Inr st"
    and pl: "placements response = ps_placements st"
    by (rule calculate_placement_run)
  from place_all_placements [OF pa] assms(2) pl
  have "\<exists>(k, it) \<in> set (sort_items f now items). \<not> has_container it \<and> p_itemId p = itemId it"
    by auto
  then show ?thesis
    by (simp add: sort_items_def)
qed

lemma placed_items_located:
  assumes "calculate_placement sp f now items containers = Inr (response, items', containers')"
    and "distinct (map fst items)"
    and "p \<in> set (placements response)"
  shows "\<exists>k x. map_of items' k = Some x \<and> itemId x = p_itemId p \<and> has_container x"
proof -
  from assms(1) obtain st where
    pa: "place_all sp (sort_items f now items)
       \<lparr>ps_items = items, ps_containers = containers,
        ps_spaces = fold (\<lambda>(container_id, c) acc.
              AList.update container_id
                (new_space sp (cont_width c) (cont_depth c) (cont_height c)) acc)
              containers [],
        ps_placements = [], ps_placed = {}\<rparr> = Inr st"
    and it: "items' = ps_items st" and pl: "placements response = ps_placements st"
    by (rule calculate_placement_run)
  have ec: "entries_current (sort_items f now items)
              (ps_items \<lparr>ps_items = items, ps_containers = containers,
        ps_spaces = fold (\<lambda>(container_id, c) acc.
              AList.update container_id
                (new_space sp (cont_width c) (cont_depth c) (cont_height c)) acc)
              containers [],
        ps_placements = [], ps_placed = {}\<rparr>)"
    using sort_items_current [OF assms(2)] by simp
  from place_all_placed_located [OF pa ec, of p] assms(3) pl it show ?thesis
    by simp
qed

lemma calculate_placement_well_keyed:
  assumes "calculate_placement sp f now items containers = Inr (response, items', containers')"
    and "well_keyed items"
  shows "well_keyed items'"
proof -
  have d: "distinct (map fst items)"
    using assms(2) by (simp add: well_keyed_def)
  from assms(1) obtain st where
    pa: "place_all sp (sort_items f now items)
       \<lparr>ps_items = items, ps_containers = containers,
        ps_spaces = fold (\<lambda>(container_id, c) acc.
              AList.update container_id
                (new_space sp (cont_width c) (cont_depth c) (cont_height c)) acc)
              containers [],
        ps_placements = [], ps_placed = {}\<rparr> = Inr st"
    and it: "items' = ps_items st"
    by (rule calculate_placement_run)
  have ec: "entries_current (sort_items f now items)
              (ps_items \<lparr>ps_items = items, ps_containers = containers,
        ps_spaces = fold (\<lambda>(container_id, c) acc.
              AList.update container_id
                (new_space sp (cont_width c) (cont_depth c) (cont_height c)) acc)
              containers [],
        ps_placements = [], ps_placed = {}\<rparr>)"
    using sort_items_current [OF d] by simp
  have keys: "map fst items' = map fst items"
    using place_all_keys [OF pa ec] it by simp
  have d': "distinct (map fst items')"
    using keys d by simp
  have "itemId x' = k" if "(k, x') \<in> set items'" for k x'
  proof -
    from that have "k \<in> set (map fst items)"
      using keys by (metis fst_conv image_eqI set_map)
    then obtain x where x: "map_of items k = Some x"
      by (metis map_of_eq_None_iff not_Some_eq set_map)
    then have "itemId x = k"
      using assms(2) by (auto simp: well_keyed_def dest: map_of_SomeD)
    moreover from place_all_frame [OF pa ec, of k x] x it obtain x'' where
      "map_of items' k = Some x''" "itemId x'' = itemId x"
      by auto
    moreover have "map_of items' k = Some x'"
      using that d' by simp
    ultimately show ?thesis
      by simp
  qed
  with d' show ?thesis
    by (auto simp: well_keyed_def)
qed

text \<open>
  The guard of the item loop. On a store keyed by item id, a call of the planner on the
  stores left by an earlier call emits no placement for an item that has a location, in
  particular none for an item the earlier call placed; its placements list is empty when
  no item is without a location.
\<close>

lemma located_items_skipped:
  assumes "well_keyed items"
    and "calculate_placement sp f now items containers = Inr (r1, items1, containers1)"
    and "calculate_placement sp f now' items1 containers1 = Inr (r2, items2, containers2)"
  shows "(\<forall>k it. map_of items1 k = Some it \<and> has_container it \<longrightarrow>
                 k \<notin> p_itemId ` set (placements r2)) \<and>
         p_itemId ` set (placements r1) \<inter> p_itemId ` set (placements r2) = {} \<and>
         ((\<forall>(k, it) \<in> set items1. has_container it) \<longrightarrow> placements r2 = [])"
proof -
  have wk1: "well_keyed items1"
    using calculate_placement_well_keyed [OF assms(2,1)] .
  have located: "k \<notin> p_itemId ` set (placements r2)"
    if "map_of items1 k = Some it" "has_container it" for k it
  proof
    assume "k \<in> p_itemId ` set (placements r2)"
    then obtain p where "p \<in> set (placements r2)" "p_itemId p = k"
      by auto
    with placements_unlocated [OF assms(3)] obtain k' it' where
      e: "(k', it') \<in> set items1" "\<not> has_container it'" "itemId it' = k"
      by fastforce
    with wk1 have "k' = k" "map_of items1 k' = Some it'"
      by (auto simp: well_keyed_def)
    with that e show False
      by simp
  qed
  have disjoint: "p_itemId ` set (placements r1) \<inter> p_itemId ` set (placements r2) = {}"
  proof -
    have "p_itemId p \<notin> p_itemId ` set (placements r2)" if "p \<in> set (placements r1)" for p
    proof -
      have "distinct (map fst items)"
        using assms(1) by (simp add: well_keyed_def)
      from placed_items_located [OF assms(2) this that] obtain k x where
        x: "map_of items1 k = Some x" "itemId x = p_itemId p" "has_container x"
        by blast
      then have "k = p_itemId p"
        using wk1 by (auto simp: well_keyed_def dest: map_of_SomeD)
      with located [OF x(1,3)] show ?thesis
        by simp
    qed
    then show ?thesis
      by auto
  qed
  have empty: "placements r2 = []" if "\<forall>(k, it) \<in> set items1. has_container it"
  proof (cases "placements r2")
    case Nil
    then show ?thesis .
  next
    case (Cons p ps)
    then have "p \<in> set (placements r2)"
      by simp
    with placements_unlocated [OF assms(3)] that show ?thesis
      by fastforce
  qed
  from located disjoint empty show ?thesis
    by blast
qed

lemma located_items_skipped_single:
  "calculate_placement spec_space3d Map.empty 0 single_items_after tight_containers_after
   = Inr (\<lparr>placements = [], rearrangements = []\<rparr>, single_items_after, tight_containers_after)"
proof -
  have wk: "well_keyed single_items"
    by (simp add: well_keyed_def single_items_def mk_item_def)
  have first: "calculate_placement spec_space3d Map.empty 0 single_items tight_containers
               = Inr (\<lparr>placements = [placement_at_origin ''A''], rearrangements = []\<rparr>,
                      single_items_after, tight_containers_after)"
    by code_simp
  obtain r2 items2 containers2 where
    second: "calculate_placement spec_space3d Map.empty 0 single_items_after
               tight_containers_after = Inr (r2, items2, containers2)"
    and rest: "rearrangements r2 = []" "items2 = single_items_after"
      "containers2 = tight_containers_after"
  proof -
    have "calculate_placement spec_space3d Map.empty 0 single_items_after
            tight_containers_after
          = Inr (\<lparr>placements = [], rearrangements = []\<rparr>, single_items_after,
                 tight_containers_after)"
      by code_simp
    then show ?thesis
      using that by simp
  qed
  have all_located: "\<forall>(k, it) \<in> set single_items_after. has_container it"
    by (simp add: single_items_after_def mk_item_def at_loc_def has_container_def)
  from located_items_skipped [OF wk first second] all_located
  have "placements r2 = []"
    by blast
  with second rest show ?thesis
    by simp
qed

text \<open>
  C10. In the tight scenario the first call places \<open>A\<close> and leaves \<open>B\<close> without a
  location. The second call, on the stores the first one left and with no new item,
  emits a placement: it puts \<open>B\<close> at \<open>(0, 0, 0)\<close> with rotation \<open>(3, 3, 2)\<close>, the box that \<open>A\<close>
  occupies. The space models are created empty, and the container, which refuses the
  volume, keeps its occupied space and its item list.
\<close>

theorem second_placement_not_empty:
  "calculate_placement spec_space3d Map.empty 0 tight_items tight_containers
   = Inr (\<lparr>placements = [placement_at_origin ''A''], rearrangements = []\<rparr>,
          tight_items_after, tight_containers_after) \<and>
   calculate_placement spec_space3d Map.empty 0 tight_items_after tight_containers_after
   = Inr (\<lparr>placements = [placement_at_origin ''B''], rearrangements = []\<rparr>,
          tight_items_twice, tight_containers_after)"
  by code_simp

section \<open>The waste flag\<close>

lemma waste_in_Cons:
  "waste_in ((k', it) # rest) k = (if k = k' then isWaste it else waste_in rest k)"
  by (simp add: waste_in_def)

lemma waste_in_update:
  assumes "map_of items k0 = Some it" and "isWaste it \<longrightarrow> isWaste it'" and "waste_in items k"
  shows "waste_in (AList.update k0 it' items) k"
  using assms by (auto simp: waste_in_def update_conv' split: option.splits)

lemma classify_item_waste: "isWaste it \<Longrightarrow> isWaste (snd (classify_item f d it))"
  by (simp add: classify_item_def split: option.splits)

lemma classify_loop_keeps:
  "map fst (snd (snd (classify_loop f d items))) = map fst items \<and>
   (waste_in items k \<longrightarrow> waste_in (snd (snd (classify_loop f d items))) k)"
proof (induction items)
  case Nil
  then show ?case by simp
next
  case (Cons e items)
  obtain k' it where e: "e = (k', it)"
    by (cases e)
  obtain r it' where c: "classify_item f d it = (r, it')"
    by (cases "classify_item f d it")
  obtain ws m rest' where l: "classify_loop f d items = (ws, m, rest')"
    by (metis prod_cases3)
  have "isWaste it \<longrightarrow> isWaste it'"
    using classify_item_waste [of it f d] c by simp
  then show ?case
    using Cons.IH by (auto simp: e c l waste_in_Cons split: option.splits)
qed

lemma identify_keeps:
  assumes "identify_waste_items f parse items containers d = (result, items')"
  shows "map fst items' = map fst items" and "waste_in items k \<Longrightarrow> waste_in items' k"
proof -
  have "items' = snd (snd (classify_loop f d items))"
    using assms by (auto simp: identify_waste_items_def Let_def split: prod.splits)
  then show "map fst items' = map fst items" and "waste_in items k \<Longrightarrow> waste_in items' k"
    using classify_loop_keeps [of f d items k] by simp_all
qed

lemma expiry_loop_keeps:
  "map fst (fst (expiry_loop f c n items)) = map fst items \<and>
   (waste_in items k \<longrightarrow> waste_in (fst (expiry_loop f c n items)) k)"
proof (induction items)
  case Nil
  then show ?case by simp
next
  case (Cons e items)
  obtain k' it where e: "e = (k', it)"
    by (cases e)
  obtain rest' ws where l: "expiry_loop f c n items = (rest', ws)"
    by (cases "expiry_loop f c n items")
  show ?case
    using Cons.IH by (auto simp: e l waste_in_Cons split: option.splits)
qed

lemma simulate_days_keeps:
  assumes "simulate_days f num_days current_date items = (new_date, items', ws)"
  shows "map fst items' = map fst items" and "waste_in items k \<Longrightarrow> waste_in items' k"
proof -
  have "items' = fst (expiry_loop f current_date (current_date + timedelta_days num_days) items)"
    using assms by (auto simp: simulate_days_def Let_def split: prod.splits)
  then show "map fst items' = map fst items" and "waste_in items k \<Longrightarrow> waste_in items' k"
    using expiry_loop_keeps [of f current_date "current_date + timedelta_days num_days" items k]
    by simp_all
qed

lemma undock_loop_keeps:
  "distinct (map fst items) \<Longrightarrow>
   distinct (map fst (fst (undock_loop ids items containers))) \<and>
   (waste_in items k \<longrightarrow> waste_in (fst (undock_loop ids items containers)) k)"
proof (induction ids arbitrary: items containers)
  case Nil
  then show ?case by simp
next
  case (Cons i ids)
  show ?case
  proof (cases "map_of items i")
    case None
    then show ?thesis
      using Cons.IH [OF Cons.prems] by simp
  next
    case (Some it)
    let ?items1 = "AList.update i (it\<lparr>currentLocation := None\<rparr>) items"
    have d: "distinct (map fst ?items1)"
      using Cons.prems by (rule distinct_update)
    have w: "waste_in items k \<longrightarrow> waste_in ?items1 k"
      using waste_in_update [OF Some, of "it\<lparr>currentLocation := None\<rparr>" k] by simp
    show ?thesis
      using Cons.IH [OF d] w Some by (simp add: Let_def)
  qed
qed

lemma retrieve_item_keeps:
  assumes "retrieve_item sp set_iter item_id user_id items containers
           = Inr (success, steps, items', containers')"
  shows "distinct (map fst items) \<Longrightarrow> distinct (map fst items')"
    and "waste_in items k \<Longrightarrow> waste_in items' k"
proof -
  let ?used = "\<lambda>it. if usageLimit it > 0
                    then (if usageLimit it - 1 = 0
                          then it\<lparr>usageLimit := usageLimit it - 1, isWaste := True\<rparr>
                          else it\<lparr>usageLimit := usageLimit it - 1\<rparr>)
                    else it"
  have "items' = items \<or>
        (\<exists>it. map_of items item_id = Some it \<and>
              items' = AList.update item_id ((?used it)\<lparr>currentLocation := None\<rparr>) items)"
    using assms
    by (auto simp: retrieve_item_def Let_def split: option.splits sum.splits if_splits)
  then consider "items' = items"
    | it where "map_of items item_id = Some it"
        "items' = AList.update item_id ((?used it)\<lparr>currentLocation := None\<rparr>) items"
    by blast
  then have "(distinct (map fst items) \<longrightarrow> distinct (map fst items')) \<and>
             (waste_in items k \<longrightarrow> waste_in items' k)"
  proof cases
    case 1
    then show ?thesis by simp
  next
    case 2
    have "isWaste it \<longrightarrow> isWaste ((?used it)\<lparr>currentLocation := None\<rparr>)"
      by simp
    from waste_in_update [OF 2(1) this] show ?thesis
      by (auto simp: 2(2) distinct_update)
  qed
  then show "distinct (map fst items) \<Longrightarrow> distinct (map fst items')"
    and "waste_in items k \<Longrightarrow> waste_in items' k"
    by simp_all
qed

lemma calculate_placement_keeps:
  assumes "calculate_placement sp f now items containers = Inr (response, items', containers')"
    and "distinct (map fst items)"
  shows "distinct (map fst items')" and "waste_in items k \<Longrightarrow> waste_in items' k"
proof -
  let ?st0 = "\<lparr>ps_items = items, ps_containers = containers,
              ps_spaces = fold (\<lambda>(container_id, c) acc.
                    AList.update container_id
                      (new_space sp (cont_width c) (cont_depth c) (cont_height c)) acc)
                    containers [],
              ps_placements = [], ps_placed = {}\<rparr>"
  from assms(1) obtain st where
    pa: "place_all sp (sort_items f now items) ?st0 = Inr st" and items': "items' = ps_items st"
    by (auto simp: calculate_placement_def Let_def split: sum.splits)
  have ec: "entries_current (sort_items f now items) (ps_items ?st0)"
    using sort_items_current [OF assms(2)] by simp
  show "distinct (map fst items')"
    using place_all_keys [OF pa ec] assms(2) items' by simp
  show "waste_in items' k" if "waste_in items k"
  proof -
    from that obtain x where x: "map_of items k = Some x" "isWaste x"
      by (auto simp: waste_in_def split: option.splits)
    from place_all_frame [OF pa ec, of k x] x show ?thesis
      by (auto simp: waste_in_def items')
  qed
qed

lemma run_op_keeps:
  assumes "run_op sp rt op s = Inr s'" and "distinct (map fst (st_items s))"
  shows "distinct (map fst (st_items s'))"
    and "waste_in (st_items s) k \<Longrightarrow> waste_in (st_items s') k"
proof -
  have "distinct (map fst (st_items s')) \<and>
        (waste_in (st_items s) k \<longrightarrow> waste_in (st_items s') k)"
  proof (cases op)
    case (Placement now)
    with assms(1) obtain response items' containers' where
      "calculate_placement sp (rt_fromisoformat rt) now (st_items s) (st_containers s)
       = Inr (response, items', containers')" "st_items s' = items'"
      by (auto split: sum.splits)
    with calculate_placement_keeps [OF this(1) assms(2)] show ?thesis
      by auto
  next
    case (Retrieval item_id user_id)
    with assms(1) obtain success steps items' containers' where
      "retrieve_item sp (rt_iter_pairs rt) item_id user_id (st_items s) (st_containers s)
       = Inr (success, steps, items', containers')" "st_items s' = items'"
      by (auto split: sum.splits)
    with retrieve_item_keeps [OF this(1)] assms(2) show ?thesis
      by auto
  next
    case (WasteIdentification current_date)
    with assms(1) obtain result items' where
      "identify_waste_items (rt_fromisoformat rt) (rt_parse_int rt) (st_items s)
         (st_containers s) current_date = (result, items')" "st_items s' = items'"
      by (auto split: prod.splits)
    with identify_keeps [OF this(1)] assms(2) show ?thesis
      by auto
  next
    case (WasteReturn current_date max_weight undock)
    with assms(1) obtain result items' where
      "identify_waste_items (rt_fromisoformat rt) (rt_parse_int rt) (st_items s)
         (st_containers s) current_date = (result, items')" "st_items s' = items'"
      by (auto split: prod.splits sum.splits)
    with identify_keeps [OF this(1)] assms(2) show ?thesis
      by auto
  next
    case (Simulation num_days current_date)
    with assms(1) obtain new_date items' ws where
      "simulate_days (rt_fromisoformat rt) num_days current_date (st_items s)
       = (new_date, items', ws)" "st_items s' = items'"
      by (auto split: prod.splits)
    with simulate_days_keeps [OF this(1)] assms(2) show ?thesis
      by auto
  next
    case (UndockCompletion waste_items plan_steps)
    let ?ids = "rt_iter_ids rt (set (map w_itemId
                  (filter (\<lambda>s. w_action s \<in> set [''move'', ''remove'', ''place''])
                     plan_steps)))"
    have "st_items s' = fst (undock_loop ?ids (st_items s) (st_containers s))"
      using assms(1) UndockCompletion
      by (auto simp: complete_undocking_def Let_def split: prod.splits)
    with undock_loop_keeps [OF assms(2), of ?ids "st_containers s" k] show ?thesis
      by simp
  qed
  then show "distinct (map fst (st_items s'))"
    and "waste_in (st_items s) k \<Longrightarrow> waste_in (st_items s') k"
    by simp_all
qed

text \<open>
  C8. Along any sequence of core operations (placement, retrieval, waste identification,
  waste return, simulation, undock completion) on a store with distinct keys, an item
  whose waste flag is set stays in the store with the flag set.
\<close>

theorem waste_flag_stays_set:
  assumes "distinct (map fst (st_items s))"
    and "run_ops sp rt ops s = Inr s'"
    and "waste_in (st_items s) k"
  shows "waste_in (st_items s') k"
  using assms
proof (induction ops arbitrary: s)
  case Nil
  then show ?case by simp
next
  case (Cons op ops)
  from Cons.prems(2) obtain s1 where
    one: "run_op sp rt op s = Inr s1" and rest: "run_ops sp rt ops s1 = Inr s'"
    by (auto split: sum.splits)
  from run_op_keeps [OF one Cons.prems(1)] Cons.prems(3)
  have "distinct (map fst (st_items s1))" "waste_in (st_items s1) k"
    by simp_all
  from Cons.IH [OF this(1) rest this(2)] show ?case .
qed

theorem waste_flag_stays_set_witness:
  "run_ops spec_space3d plain_runtime all_ops flagged_state = Inr flagged_state_after \<and>
   waste_in (st_items flagged_state_after) ''W''"
proof -
  have d: "distinct (map fst (st_items flagged_state))"
    by (simp add: flagged_state_def)
  have run: "run_ops spec_space3d plain_runtime all_ops flagged_state = Inr flagged_state_after"
    by code_simp
  have w: "waste_in (st_items flagged_state) ''W''"
    by (simp add: flagged_state_def waste_in_def mk_item_def)
  from waste_flag_stays_set [OF d run w] run show ?thesis
    by simp
qed

end
